theory Spec2Isabelle
  imports Main "HOL-Library.Sublist"
begin

section \<open>Strings\<close>

text \<open>
  A JavaScript string is a sequence of UTF-16 code units.  The development covers the
  strings whose code units are below 256 (ASCII and the Latin-1 supplement): one
  \<^typ>\<open>char\<close> is one code unit, \<^term>\<open>length\<close> is \<open>.length\<close>.
\<close>

definition upperChars :: string where
  "upperChars = ''ABCDEFGHIJKLMNOPQRSTUVWXYZ'' @
     [CHR 0xC0, CHR 0xC1, CHR 0xC2, CHR 0xC3, CHR 0xC4, CHR 0xC5, CHR 0xC6, CHR 0xC7,
      CHR 0xC8, CHR 0xC9, CHR 0xCA, CHR 0xCB, CHR 0xCC, CHR 0xCD, CHR 0xCE, CHR 0xCF,
      CHR 0xD0, CHR 0xD1, CHR 0xD2, CHR 0xD3, CHR 0xD4, CHR 0xD5, CHR 0xD6,
      CHR 0xD8, CHR 0xD9, CHR 0xDA, CHR 0xDB, CHR 0xDC, CHR 0xDD, CHR 0xDE]"

definition lowerChars :: string where
  "lowerChars = ''abcdefghijklmnopqrstuvwxyz'' @
     [CHR 0xE0, CHR 0xE1, CHR 0xE2, CHR 0xE3, CHR 0xE4, CHR 0xE5, CHR 0xE6, CHR 0xE7,
      CHR 0xE8, CHR 0xE9, CHR 0xEA, CHR 0xEB, CHR 0xEC, CHR 0xED, CHR 0xEE, CHR 0xEF,
      CHR 0xF0, CHR 0xF1, CHR 0xF2, CHR 0xF3, CHR 0xF4, CHR 0xF5, CHR 0xF6,
      CHR 0xF8, CHR 0xF9, CHR 0xFA, CHR 0xFB, CHR 0xFC, CHR 0xFD, CHR 0xFE]"

text \<open>\<open>String.prototype.toLowerCase\<close>, one code unit at a time.\<close>

definition toLowerChar :: "char \<Rightarrow> char" where
  "toLowerChar c = (case map_of (zip upperChars lowerChars) c of Some l \<Rightarrow> l | None \<Rightarrow> c)"

definition toUpperChar :: "char \<Rightarrow> char" where
  "toUpperChar c = (case map_of (zip lowerChars upperChars) c of Some u \<Rightarrow> u | None \<Rightarrow> c)"

definition toLowerCase :: "string \<Rightarrow> string" where
  "toLowerCase s = map toLowerChar s"

text \<open>\<open>s.startsWith(w)\<close> and \<open>s.includes(w)\<close>.\<close>

fun startsWith :: "string \<Rightarrow> string \<Rightarrow> bool" where
  "startsWith s [] = True"
| "startsWith [] (y # ys) = False"
| "startsWith (x # xs) (y # ys) = (x = y \<and> startsWith xs ys)"

fun includes_str :: "string \<Rightarrow> string \<Rightarrow> bool" where
  "includes_str [] w = (w = [])"
| "includes_str (x # xs) w = (startsWith (x # xs) w \<or> includes_str xs w)"

text \<open>
  White space and line terminators, as \<open>trim\<close> and the class \<open>\s\<close> see them
  (TAB, LF, VT, FF, CR, SP, NBSP below 256).
\<close>

definition isWhiteSpace :: "char \<Rightarrow> bool" where
  "isWhiteSpace c = (c \<in> set [CHR 0x09, CHR 0x0A, CHR 0x0B, CHR 0x0C, CHR 0x0D, CHR 0x20, CHR 0xA0])"

definition trim :: "string \<Rightarrow> string" where
  "trim s = rev (dropWhile isWhiteSpace (rev (dropWhile isWhiteSpace s)))"

text \<open>JavaScript truthiness of an optional string: defined and not empty.\<close>

fun truthy :: "string option \<Rightarrow> bool" where
  "truthy None = False"
| "truthy (Some s) = (s \<noteq> [])"

section \<open>Data model (types.ts)\<close>

record Education =
  institution :: string
  degree :: string
  fieldOfStudy :: "string option"
  edu_startDate :: "string option"
  edu_endDate :: "string option"
  edu_description :: "string option"

record Experience =
  company :: string
  position :: string
  exp_startDate :: "string option"
  exp_endDate :: "string option"
  exp_description :: "string option"
  achievements :: "string list option"

record Certification =
  cert_name :: string
  issuer :: "string option"
  date :: "string option"
  cert_description :: "string option"

record Project =
  proj_name :: string
  proj_description :: "string option"
  technologies :: "string list option"
  link :: "string option"

text \<open>
  An optional property (\<open>email?: string\<close>) is an \<open>option\<close>: \<open>None\<close> is
  \<open>undefined\<close>.  The property \<open>id\<close> is called \<open>ident\<close> here.
\<close>

record Resume =
  ident :: "string option"
  name :: string
  email :: "string option"
  phone :: "string option"
  location :: "string option"
  linkedin :: "string option"
  website :: "string option"
  summary :: "string option"
  skills :: "string list option"
  experience :: "Experience list option"
  education :: "Education list option"
  certifications :: "Certification list option"
  projects :: "Project list option"

record AnalysisResult =
  score :: int
  strengths :: "string list"
  improvements :: "string list"

section \<open>JSON.stringify\<close>

definition hexDigit :: "nat \<Rightarrow> char" where
  "hexDigit n = ''0123456789abcdef'' ! (n mod 16)"

text \<open>
  \<open>QuoteJSONString\<close>: the quote and the backslash are escaped, the control characters
  have their short escapes or \<open>\u00xx\<close>, every other code unit stands for itself.
\<close>

definition jsonEscapeChar :: "char \<Rightarrow> string" where
  "jsonEscapeChar c =
    (if c = CHR 0x22 then [CHR 0x5C, CHR 0x22]
     else if c = CHR 0x5C then [CHR 0x5C, CHR 0x5C]
     else if c = CHR 0x08 then [CHR 0x5C, CHR ''b'']
     else if c = CHR 0x0C then [CHR 0x5C, CHR ''f'']
     else if c = CHR 0x0A then [CHR 0x5C, CHR ''n'']
     else if c = CHR 0x0D then [CHR 0x5C, CHR ''r'']
     else if c = CHR 0x09 then [CHR 0x5C, CHR ''t'']
     else if (of_char c :: nat) < 32
       then [CHR 0x5C, CHR ''u'', CHR ''0'', CHR ''0'',
             hexDigit ((of_char c :: nat) div 16), hexDigit (of_char c :: nat)]
     else [c])"

definition jsonString :: "string \<Rightarrow> string" where
  "jsonString s = [CHR 0x22] @ concat (map jsonEscapeChar s) @ [CHR 0x22]"

fun joinWith :: "string \<Rightarrow> string list \<Rightarrow> string" where
  "joinWith sep [] = []"
| "joinWith sep [x] = x"
| "joinWith sep (x # y # ys) = x @ sep @ joinWith sep (y # ys)"

definition jsonArray :: "string list \<Rightarrow> string" where
  "jsonArray elems = ''['' @ joinWith '','' elems @ '']''"

text \<open>
  An object: its properties in order, a property whose value is \<open>undefined\<close> left out.
  JavaScript keeps the properties in the order in which the object was built; here they
  are listed in the order of the interface declaration, which is the order in which
  \<open>getResume\<close> builds a record (the caller of \<open>saveResume\<close> puts \<open>id\<close> last).  A value
  \<open>null\<close>, which the store may hand back for an empty column, is outside the declared
  types and not covered.  Neither changes which keywords the text holds: a keyword
  consists of letters and cannot reach across the quotes around a value.
\<close>

fun jsonProps :: "(string \<times> string option) list \<Rightarrow> string list" where
  "jsonProps [] = []"
| "jsonProps ((k, None) # ps) = jsonProps ps"
| "jsonProps ((k, Some v) # ps) = (jsonString k @ '':'' @ v) # jsonProps ps"

definition jsonObject :: "(string \<times> string option) list \<Rightarrow> string" where
  "jsonObject ps = ''{'' @ joinWith '','' (jsonProps ps) @ ''}''"

definition jsonStrings :: "string list \<Rightarrow> string" where
  "jsonStrings xs = jsonArray (map jsonString xs)"

definition jsonEducation :: "Education \<Rightarrow> string" where
  "jsonEducation e = jsonObject
     [(''institution'', Some (jsonString (institution e))),
      (''degree'', Some (jsonString (degree e))),
      (''fieldOfStudy'', map_option jsonString (fieldOfStudy e)),
      (''startDate'', map_option jsonString (edu_startDate e)),
      (''endDate'', map_option jsonString (edu_endDate e)),
      (''description'', map_option jsonString (edu_description e))]"

definition jsonExperience :: "Experience \<Rightarrow> string" where
  "jsonExperience e = jsonObject
     [(''company'', Some (jsonString (company e))),
      (''position'', Some (jsonString (position e))),
      (''startDate'', map_option jsonString (exp_startDate e)),
      (''endDate'', map_option jsonString (exp_endDate e)),
      (''description'', map_option jsonString (exp_description e)),
      (''achievements'', map_option jsonStrings (achievements e))]"

definition jsonCertification :: "Certification \<Rightarrow> string" where
  "jsonCertification c = jsonObject
     [(''name'', Some (jsonString (cert_name c))),
      (''issuer'', map_option jsonString (issuer c)),
      (''date'', map_option jsonString (date c)),
      (''description'', map_option jsonString (cert_description c))]"

definition jsonProject :: "Project \<Rightarrow> string" where
  "jsonProject p = jsonObject
     [(''name'', Some (jsonString (proj_name p))),
      (''description'', map_option jsonString (proj_description p)),
      (''technologies'', map_option jsonStrings (technologies p)),
      (''link'', map_option jsonString (link p))]"

definition stringify :: "Resume \<Rightarrow> string" where
  "stringify r = jsonObject
     [(''id'', map_option jsonString (ident r)),
      (''name'', Some (jsonString (name r))),
      (''email'', map_option jsonString (email r)),
      (''phone'', map_option jsonString (phone r)),
      (''location'', map_option jsonString (location r)),
      (''linkedin'', map_option jsonString (linkedin r)),
      (''website'', map_option jsonString (website r)),
      (''summary'', map_option jsonString (summary r)),
      (''skills'', map_option jsonStrings (skills r)),
      (''experience'', map_option (\<lambda>xs. jsonArray (map jsonExperience xs)) (experience r)),
      (''education'', map_option (\<lambda>xs. jsonArray (map jsonEducation xs)) (education r)),
      (''certifications'', map_option (\<lambda>xs. jsonArray (map jsonCertification xs)) (certifications r)),
      (''projects'', map_option (\<lambda>xs. jsonArray (map jsonProject xs)) (projects r))]"

section \<open>Regular expressions\<close>

text \<open>
  The patterns of the source are kept as data and run by one backtracking matcher that
  follows the order in which a JavaScript engine tries the alternatives, so that the first
  result is the match JavaScript reports.  Repetition occurs in the source only on single
  character classes, which is what \<open>Rep\<close> provides.
\<close>

datatype atom =
    Ch char             \<comment> \<open>a literal character\<close>
  | Rng char char       \<comment> \<open>a range \<open>a-z\<close> of a class\<close>
  | Digit               \<comment> \<open>\<open>\d\<close>\<close>
  | Space               \<comment> \<open>\<open>\s\<close>\<close>
  | Dot                 \<comment> \<open>\<open>.\<close>\<close>

datatype regex =
    Atom "atom list"                        \<comment> \<open>one character of a class\<close>
  | Lit string                              \<comment> \<open>a literal word\<close>
  | Rep "atom list" nat "nat option" bool   \<comment> \<open>class\<open>{lo,hi}\<close>; \<open>True\<close> greedy, \<open>False\<close> lazy\<close>
  | Seq regex regex
  | Alt regex regex
  | Opt regex                               \<comment> \<open>\<open>(r)?\<close>\<close>
  | Cap nat regex                           \<comment> \<open>capturing group number n\<close>
  | EOI                                     \<comment> \<open>\<open>$\<close> without the flag m\<close>

record flags =
  ignoreCase :: bool
  dotAll :: bool

definition isLineTerminator :: "char \<Rightarrow> bool" where
  "isLineTerminator c = (c = CHR 0x0A \<or> c = CHR 0x0D)"

fun inAtom :: "flags \<Rightarrow> atom \<Rightarrow> char \<Rightarrow> bool" where
  "inAtom f (Ch c) x = (x = c)"
| "inAtom f (Rng a b) x = ((of_char a :: nat) \<le> of_char x \<and> (of_char x :: nat) \<le> of_char b)"
| "inAtom f Digit x = ((of_char CHR ''0'' :: nat) \<le> of_char x \<and> (of_char x :: nat) \<le> of_char CHR ''9'')"
| "inAtom f Space x = isWhiteSpace x"
| "inAtom f Dot x = (dotAll f \<or> \<not> isLineTerminator x)"

text \<open>
  With the flag i two characters match when their canonical (upper-case) forms agree;
  below 256 that is: the character itself, its upper-case or its lower-case form is in
  the class.
\<close>

definition inClass :: "flags \<Rightarrow> atom list \<Rightarrow> char \<Rightarrow> bool" where
  "inClass f cls x =
     (list_ex (\<lambda>a. inAtom f a x) cls \<or>
      (ignoreCase f \<and>
        (list_ex (\<lambda>a. inAtom f a (toUpperChar x)) cls \<or>
         list_ex (\<lambda>a. inAtom f a (toLowerChar x)) cls)))"

fun litMatch :: "flags \<Rightarrow> string \<Rightarrow> string \<Rightarrow> string option" where
  "litMatch f [] s = Some s"
| "litMatch f (w # ws) [] = None"
| "litMatch f (w # ws) (x # xs) = (if inClass f [Ch w] x then litMatch f ws xs else None)"

text \<open>
  The numbers of characters a repetition may take, in the order they are tried, when
  \<open>n\<close> characters of the class lie ahead.
\<close>

definition repCounts :: "nat \<Rightarrow> nat option \<Rightarrow> bool \<Rightarrow> nat \<Rightarrow> nat list" where
  "repCounts lo hi greedy n =
     (let m = (case hi of None \<Rightarrow> n | Some h \<Rightarrow> min h n);
          ks = [lo ..< Suc m]
      in if greedy then rev ks else ks)"

type_synonym captures = "nat \<rightharpoonup> string"

text \<open>
  \<open>rmatch f r (s, c)\<close>: every way \<open>r\<close> matches at the head of \<open>s\<close>, as the rest of
  the input and the captures, in the order of backtracking.  An optional group is tried
  before it is skipped, and a try that takes no character is dropped, as JavaScript does.
\<close>

fun rmatch :: "flags \<Rightarrow> regex \<Rightarrow> string \<times> captures \<Rightarrow> (string \<times> captures) list" where
  "rmatch f (Atom cls) (s, c) =
     (case s of [] \<Rightarrow> [] | x # xs \<Rightarrow> if inClass f cls x then [(xs, c)] else [])"
| "rmatch f (Lit w) (s, c) =
     (case litMatch f w s of None \<Rightarrow> [] | Some s' \<Rightarrow> [(s', c)])"
| "rmatch f (Rep cls lo hi greedy) (s, c) =
     map (\<lambda>k. (drop k s, c)) (repCounts lo hi greedy (length (takeWhile (inClass f cls) s)))"
| "rmatch f (Seq r1 r2) st = concat (map (rmatch f r2) (rmatch f r1 st))"
| "rmatch f (Alt r1 r2) st = rmatch f r1 st @ rmatch f r2 st"
| "rmatch f (Opt r) (s, c) =
     filter (\<lambda>st'. length (fst st') \<noteq> length s) (rmatch f r (s, c)) @ [(s, c)]"
| "rmatch f (Cap n r) (s, c) =
     map (\<lambda>st'. (fst st', (snd st')(n \<mapsto> take (length s - length (fst st')) s)))
       (rmatch f r (s, c))"
| "rmatch f EOI (s, c) = (if s = [] then [(s, c)] else [])"

text \<open>
  \<open>RegExp.prototype.exec\<close> without the flag g: the leftmost start at which the pattern
  matches, and there the first match; the result is the matched text and the captures.
\<close>

fun regexExec :: "flags \<Rightarrow> regex \<Rightarrow> string \<Rightarrow> (string \<times> captures) option" where
  "regexExec f r s =
     (case rmatch f r (s, Map.empty) of
        st' # _ \<Rightarrow> Some (take (length s - length (fst st')) s, snd st')
      | [] \<Rightarrow> (case s of [] \<Rightarrow> None | _ # xs \<Rightarrow> regexExec f r xs))"

definition regexTest :: "flags \<Rightarrow> regex \<Rightarrow> string \<Rightarrow> bool" where
  "regexTest f r s = (regexExec f r s \<noteq> None)"

section \<open>The scoring engine (App.tsx, analyzeResume)\<close>

text \<open>\<open>/\d+%|\d+\s+years|\$\d+|increased|decreased|improved|reduced|achieved/i\<close>\<close>

definition achievementPattern :: regex where
  "achievementPattern =
     Alt (Seq (Rep [Digit] 1 None True) (Atom [Ch CHR ''%'']))
    (Alt (Seq (Rep [Digit] 1 None True) (Seq (Rep [Space] 1 None True) (Lit ''years'')))
    (Alt (Seq (Atom [Ch CHR ''$'']) (Rep [Digit] 1 None True))
    (Alt (Lit ''increased'')
    (Alt (Lit ''decreased'')
    (Alt (Lit ''improved'')
    (Alt (Lit ''reduced'')
         (Lit ''achieved'')))))))"

definition flags_i :: flags where
  "flags_i = \<lparr>ignoreCase = True, dotAll = False\<rparr>"

text \<open>The loop over the experience entries, left at the first description that matches.\<close>

fun hasQuantifiableAchievements :: "Experience list \<Rightarrow> bool" where
  "hasQuantifiableAchievements [] = False"
| "hasQuantifiableAchievements (exp # exps) =
     (if truthy (exp_description exp) \<and>
         regexTest flags_i achievementPattern (the (exp_description exp))
      then True
      else hasQuantifiableAchievements exps)"

definition commonKeywords :: "string list" where
  "commonKeywords =
     [''managed'', ''developed'', ''created'', ''implemented'', ''led'', ''coordinated'',
      ''analyzed'', ''designed'', ''improved'', ''increased'', ''reduced'', ''achieved'']"

definition keywordsFound :: "Resume \<Rightarrow> string list" where
  "keywordsFound resume =
     (let resumeContent = toLowerCase (stringify resume)
      in filter (\<lambda>keyword. includes_str resumeContent keyword) commonKeywords)"

text \<open>
  \<open>score += n; strengths.push(m)\<close> and \<open>improvements.push(m)\<close> on the three local
  variables, kept together in the result record.  Each commented block of the function
  body is one \<open>check\<close> function below, and \<open>analyzeResume\<close> runs them in the order
  of the source.
\<close>

definition addStrength :: "int \<Rightarrow> string \<Rightarrow> AnalysisResult \<Rightarrow> AnalysisResult" where
  "addStrength n m a = a\<lparr>score := score a + n, strengths := strengths a @ [m]\<rparr>"

definition addImprovement :: "string \<Rightarrow> AnalysisResult \<Rightarrow> AnalysisResult" where
  "addImprovement m a = a\<lparr>improvements := improvements a @ [m]\<rparr>"

text \<open>An absent array is falsy, a present one (also the empty one) is truthy.\<close>

fun atLeast_len :: "'a list option \<Rightarrow> nat \<Rightarrow> bool" where
  "atLeast_len None n = False"
| "atLeast_len (Some xs) n = (n \<le> length xs)"

definition checkContact :: "Resume \<Rightarrow> AnalysisResult \<Rightarrow> AnalysisResult" where
  "checkContact resume a =
     (if truthy (email resume) \<and> truthy (phone resume)
      then addStrength 10 ''Complete contact information provided'' a
      else addImprovement ''Add complete contact information (email and phone)'' a)"

definition checkSummary :: "Resume \<Rightarrow> AnalysisResult \<Rightarrow> AnalysisResult" where
  "checkSummary resume a =
     (if truthy (summary resume) \<and> length (the (summary resume)) > 50
      then addStrength 15 ''Strong professional summary included'' a
      else addImprovement ''Add a compelling professional summary (50+ characters)'' a)"

definition checkSkills :: "Resume \<Rightarrow> AnalysisResult \<Rightarrow> AnalysisResult" where
  "checkSkills resume a =
     (if atLeast_len (skills resume) 5
      then addStrength 15 ''Good range of skills listed'' a
      else addImprovement ''List at least 5 relevant skills'' a)"

definition checkExperience :: "Resume \<Rightarrow> AnalysisResult \<Rightarrow> AnalysisResult" where
  "checkExperience resume a =
     (if atLeast_len (experience resume) 2
      then (let a' = a\<lparr>score := score a + 20\<rparr>
            in if hasQuantifiableAchievements (the (experience resume))
               then addStrength 10 ''Experience includes quantifiable achievements'' a'
               else addImprovement
                 ''Add quantifiable achievements to work experience (e.g., percentages, numbers)'' a')
      else addImprovement ''Include at least 2 relevant work experiences'' a)"

definition checkEducation :: "Resume \<Rightarrow> AnalysisResult \<Rightarrow> AnalysisResult" where
  "checkEducation resume a =
     (if atLeast_len (education resume) 1
      then addStrength 10 ''Education details included'' a
      else addImprovement ''Add education details'' a)"

definition checkKeywords :: "Resume \<Rightarrow> AnalysisResult \<Rightarrow> AnalysisResult" where
  "checkKeywords resume a =
     (if length (keywordsFound resume) \<ge> 5
      then addStrength 10 ''Good use of action verbs and keywords'' a
      else addImprovement ''Use more action verbs and industry keywords'' a)"

definition checkCertifications :: "Resume \<Rightarrow> AnalysisResult \<Rightarrow> AnalysisResult" where
  "checkCertifications resume a =
     (if atLeast_len (certifications resume) 1
      then addStrength 10 ''Certifications or additional qualifications included'' a
      else addImprovement
        ''Consider adding relevant certifications or additional qualifications'' a)"

definition analyzeResume :: "Resume \<Rightarrow> AnalysisResult" where
  "analyzeResume resume =
     checkCertifications resume
    (checkKeywords resume
    (checkEducation resume
    (checkExperience resume
    (checkSkills resume
    (checkSummary resume
    (checkContact resume \<lparr>score = 0, strengths = [], improvements = []\<rparr>))))))"

text \<open>A record that meets every rule, in the manner of scenario B of the specification.\<close>

definition scenarioB :: Resume where
  "scenarioB =
     \<lparr>ident = None, name = ''Jane Doe'',
      email = Some ''jane@x.com'', phone = Some ''555-123-4567'',
      location = None, linkedin = None, website = None,
      summary = Some ''Managed and developed backend services; designed, implemented and led migrations.'',
      skills = Some [''Go'', ''Rust'', ''C++'', ''Python'', ''SQL'', ''Bash''],
      experience = Some
        [\<lparr>company = ''Acme'', position = ''Engineer'', exp_startDate = None, exp_endDate = None,
          exp_description = Some ''Increased revenue by 20%'', achievements = None\<rparr>,
         \<lparr>company = ''Globex'', position = ''Developer'', exp_startDate = None, exp_endDate = None,
          exp_description = Some ''Created and coordinated releases'', achievements = None\<rparr>,
         \<lparr>company = ''Initech'', position = ''Intern'', exp_startDate = None, exp_endDate = None,
          exp_description = None, achievements = None\<rparr>],
      education = Some
        [\<lparr>institution = ''MIT'', degree = ''BSc'', fieldOfStudy = None, edu_startDate = None,
          edu_endDate = None, edu_description = None\<rparr>],
      certifications = Some
        [\<lparr>cert_name = ''CKA'', issuer = None, date = None, cert_description = None\<rparr>],
      projects = None\<rparr>"

text \<open>The number of experience entries; an absent sequence has none.\<close>

definition experienceCount :: "Resume \<Rightarrow> nat" where
  "experienceCount r = (case experience r of None \<Rightarrow> 0 | Some xs \<Rightarrow> length xs)"

text \<open>
  The empty record: only the name is set, every other scalar is absent or the empty
  string, every sequence is absent or empty.
\<close>

fun isEmptySeq :: "'a list option \<Rightarrow> bool" where
  "isEmptySeq None = True"
| "isEmptySeq (Some xs) = (xs = [])"

definition emptyRecord :: "Resume \<Rightarrow> bool" where
  "emptyRecord r =
     (ident r = None \<and>
      \<not> truthy (email r) \<and> \<not> truthy (phone r) \<and> \<not> truthy (location r) \<and>
      \<not> truthy (linkedin r) \<and> \<not> truthy (website r) \<and> \<not> truthy (summary r) \<and>
      isEmptySeq (skills r) \<and> isEmptySeq (experience r) \<and> isEmptySeq (education r) \<and>
      isEmptySeq (certifications r) \<and> isEmptySeq (projects r))"

text \<open>An empty record with the given name: no scalar but the name, the sequences empty.\<close>

definition bareResume :: "string \<Rightarrow> Resume" where
  "bareResume n =
     \<lparr>ident = None, name = n, email = None, phone = None, location = None, linkedin = None,
      website = None, summary = None, skills = Some [], experience = Some [],
      education = Some [], certifications = Some [], projects = None\<rparr>"

text \<open>A record with a single experience entry whose description matches the pattern.\<close>

definition oneJob :: Resume where
  "oneJob = (bareResume ''Jane Doe'')
     \<lparr>experience := Some
        [\<lparr>company = ''Acme'', position = ''Engineer'', exp_startDate = None, exp_endDate = None,
          exp_description = Some ''Increased revenue by 20%'', achievements = None\<rparr>]\<rparr>"

text \<open>An otherwise identical copy of a record with e-mail address and phone number set.\<close>

definition withContact :: "Resume \<Rightarrow> string \<Rightarrow> string \<Rightarrow> Resume" where
  "withContact r e p = r\<lparr>email := Some e, phone := Some p\<rparr>"

section \<open>The extractor (ResumeUploader.tsx, parseResumeText)\<close>

text \<open>
  \<open>text.split(/\n|\r\n/)\<close>: the text is cut at every LF and at every CR LF; a CR
  alone is no line end.  There is always at least one piece.
\<close>

fun consHead :: "char \<Rightarrow> string list \<Rightarrow> string list" where
  "consHead x [] = [[x]]"
| "consHead x (l # ls) = (x # l) # ls"

fun splitLines :: "string \<Rightarrow> string list" where
  "splitLines [] = [[]]"
| "splitLines [x] = (if x = CHR 0x0A then [[], []] else [[x]])"
| "splitLines (x # y # ys) =
     (if x = CHR 0x0A then [] # splitLines (y # ys)
      else if x = CHR 0x0D \<and> y = CHR 0x0A then [] # splitLines ys
      else consHead x (splitLines (y # ys)))"

text \<open>\<open>s.split(/[,;]/)\<close>: the pieces between the separator characters.\<close>

fun splitOn :: "(char \<Rightarrow> bool) \<Rightarrow> string \<Rightarrow> string list" where
  "splitOn sep [] = [[]]"
| "splitOn sep (x # xs) = (if sep x then [] # splitOn sep xs else consHead x (splitOn sep xs))"

text \<open>\<open>xs[0] || d\<close>: the first element when there is one and it is not empty.\<close>

fun firstOr :: "string list \<Rightarrow> string \<Rightarrow> string" where
  "firstOr [] d = d"
| "firstOr (x # xs) d = (if x \<noteq> [] then x else d)"

definition noFlags :: flags where
  "noFlags = \<lparr>ignoreCase = False, dotAll = False\<rparr>"

definition flags_is :: flags where
  "flags_is = \<lparr>ignoreCase = True, dotAll = True\<rparr>"

text \<open>\<open>/[a-zA-Z0-9._%+-]+@[a-zA-Z0-9.-]+\.[a-zA-Z]{2,}/\<close>\<close>

definition emailPattern :: regex where
  "emailPattern =
     Seq (Rep [Rng CHR ''a'' CHR ''z'', Rng CHR ''A'' CHR ''Z'', Rng CHR ''0'' CHR ''9'',
               Ch CHR ''.'', Ch CHR ''_'', Ch CHR ''%'', Ch CHR ''+'', Ch CHR ''-''] 1 None True)
    (Seq (Atom [Ch CHR ''@''])
    (Seq (Rep [Rng CHR ''a'' CHR ''z'', Rng CHR ''A'' CHR ''Z'', Rng CHR ''0'' CHR ''9'',
               Ch CHR ''.'', Ch CHR ''-''] 1 None True)
    (Seq (Atom [Ch CHR ''.''])
         (Rep [Rng CHR ''a'' CHR ''z'', Rng CHR ''A'' CHR ''Z''] 2 None True))))"

text \<open>\<open>/(\+\d{1,3}[-.\s]?)?(\(?\d{3}\)?[-.\s]?)?\d{3}[-.\s]?\d{4}/\<close>\<close>

definition phonePattern :: regex where
  "phonePattern =
     Seq (Opt (Cap 1 (Seq (Atom [Ch CHR ''+''])
                     (Seq (Rep [Digit] 1 (Some 3) True)
                          (Rep [Ch CHR ''-'', Ch CHR ''.'', Space] 0 (Some 1) True)))))
    (Seq (Opt (Cap 2 (Seq (Rep [Ch CHR ''(''] 0 (Some 1) True)
                     (Seq (Rep [Digit] 3 (Some 3) True)
                     (Seq (Rep [Ch CHR '')''] 0 (Some 1) True)
                          (Rep [Ch CHR ''-'', Ch CHR ''.'', Space] 0 (Some 1) True))))))
    (Seq (Rep [Digit] 3 (Some 3) True)
    (Seq (Rep [Ch CHR ''-'', Ch CHR ''.'', Space] 0 (Some 1) True)
         (Rep [Digit] 4 (Some 4) True))))"

text \<open>
  \<open>/skills:?(.*?)(?:\n\n|\n[A-Z]|$)/is\<close> and the same pattern with \<open>summary\<close>: the
  header word, an optional colon, the lazy capture, and the three ways the section ends.
\<close>

definition sectionPattern :: "string \<Rightarrow> regex" where
  "sectionPattern header =
     Seq (Lit header)
    (Seq (Rep [Ch CHR '':''] 0 (Some 1) True)
    (Seq (Cap 1 (Rep [Dot] 0 None False))
         (Alt (Lit [CHR 0x0A, CHR 0x0A])
         (Alt (Seq (Atom [Ch CHR 0x0A]) (Atom [Rng CHR ''A'' CHR ''Z'']))
              EOI))))"

text \<open>
  Reading a group of a match (\<open>m[1]\<close>) gives \<open>undefined\<close> when the group took no part in
  the match, and a method call on \<open>undefined\<close> throws a \<open>TypeError\<close>.
\<close>

datatype js_error = TypeError

fun group :: "captures \<Rightarrow> nat \<Rightarrow> js_error + string" where
  "group c n = (case c n of None \<Rightarrow> Inl TypeError | Some g \<Rightarrow> Inr g)"

definition parseSkills :: "string \<Rightarrow> js_error + string list" where
  "parseSkills text =
     (case regexExec flags_is (sectionPattern ''skills'') text of
        None \<Rightarrow> Inr []
      | Some skillsSection \<Rightarrow>
          (case group (snd skillsSection) 1 of
             Inl e \<Rightarrow> Inl e
           | Inr g \<Rightarrow>
               Inr (filter (\<lambda>skill. skill \<noteq> [])
                      (map trim (splitOn (\<lambda>c. c = CHR '','' \<or> c = CHR '';'') g)))))"

definition parseSummary :: "string \<Rightarrow> js_error + string" where
  "parseSummary text =
     (case regexExec flags_is (sectionPattern ''summary'') text of
        None \<Rightarrow> Inr []
      | Some summaryMatch \<Rightarrow>
          (case group (snd summaryMatch) 1 of
             Inl e \<Rightarrow> Inl e
           | Inr g \<Rightarrow> Inr (trim g)))"

definition parseName :: "string \<Rightarrow> string" where
  "parseName text =
     (let lines = splitLines text;
          cleanedLines = filter (\<lambda>line. trim line \<noteq> []) lines
      in firstOr cleanedLines ''Unknown Name'')"

definition parseEmail :: "string \<Rightarrow> string" where
  "parseEmail text =
     (case regexExec noFlags emailPattern text of
        None \<Rightarrow> []
      | Some emailMatch \<Rightarrow> fst emailMatch)"

definition parsePhone :: "string \<Rightarrow> string" where
  "parsePhone text =
     (case regexExec noFlags phonePattern text of
        None \<Rightarrow> []
      | Some phoneMatch \<Rightarrow> fst phoneMatch)"

text \<open>
  The steps of \<open>parseResumeText\<close> in the order of the source; the result object has the
  seven properties of the source's literal, the others are absent.
\<close>

definition parseResumeText :: "string \<Rightarrow> js_error + Resume" where
  "parseResumeText text =
     (case parseSkills text of
        Inl e \<Rightarrow> Inl e
      | Inr skillList \<Rightarrow>
          (case parseSummary text of
             Inl e \<Rightarrow> Inl e
           | Inr summaryText \<Rightarrow>
               Inr \<lparr>ident = None,
                    name = parseName text,
                    email = Some (parseEmail text),
                    phone = Some (parsePhone text),
                    location = None, linkedin = None, website = None,
                    summary = Some summaryText,
                    skills = Some skillList,
                    experience = Some [],
                    education = Some [],
                    certifications = None,
                    projects = None\<rparr>))"

text \<open>Scenario A of the specification.\<close>

definition scenarioA :: string where
  "scenarioA = ''Jane Doe'' @ [CHR 0x0A] @ ''jane@x.com'' @ [CHR 0x0A] @ ''555-123-4567'' @ [CHR 0x0A]
     @ ''Skills: Go, Rust, C++, Python, SQL'' @ [CHR 0x0A]
     @ ''Summary: Over ten years of backend engineering leadership across distributed systems teams.''"

text \<open>A skills section that goes on in a second line, which starts with a small letter.\<close>

definition twoLineSkills :: string where
  "twoLineSkills = ''Jane Doe'' @ [CHR 0x0A] @ ''Skills: Python, SQL,'' @ [CHR 0x0A] @ ''docker, git''"

text \<open>A text with a name and nothing else.\<close>

definition justAName :: string where
  "justAName = ''Jane Doe''"

text \<open>A text whose first two lines are blank.\<close>

definition blankThenName :: string where
  "blankThenName = ''  '' @ [CHR 0x0D, CHR 0x0A, CHR 0x0A] @ ''Jane Doe'' @ [CHR 0x0A] @ ''Engineer''"

section \<open>The store (lib/supabase.ts) and its callers\<close>

text \<open>
  The four tables.  A row of \<open>resumes\<close> is found by its primary key \<open>id\<close>, and an upsert
  puts the new row in the place of the old one; the rows of the three child tables carry
  the key of their record in \<open>resume_id\<close>.
\<close>

record resume_row =
  r_id :: string
  r_name :: string
  r_email :: "string option"
  r_phone :: "string option"
  r_location :: "string option"
  r_linkedin :: "string option"
  r_website :: "string option"
  r_summary :: "string option"
  r_skills :: "string list option"
  r_created_at :: string

record experience_row =
  x_id :: string
  x_resume_id :: string
  x_company :: string
  x_position :: string
  x_start_date :: "string option"
  x_end_date :: "string option"
  x_description :: "string option"
  x_order_index :: nat

record education_row =
  e_id :: string
  e_resume_id :: string
  e_institution :: string
  e_degree :: string
  e_field_of_study :: "string option"
  e_start_date :: "string option"
  e_end_date :: "string option"
  e_description :: "string option"
  e_order_index :: nat

record certification_row =
  c_id :: string
  c_resume_id :: string
  c_name :: string
  c_issuer :: "string option"
  c_date :: "string option"
  c_description :: "string option"
  c_order_index :: nat

record database =
  resumes :: "string \<rightharpoonup> resume_row"
  resume_experiences :: "experience_row list"
  resume_education :: "education_row list"
  resume_certifications :: "certification_row list"

text \<open>
  The state outside the program: the database and the number of identifiers that
  \<open>uuidv4\<close> has handed out.
\<close>

record world =
  db :: database
  uuidCount :: nat

datatype store_error = StoreError string

text \<open>
  What the program cannot decide is given from outside: for each of the seven calls of the
  store whether it reports an error, the identifiers that \<open>uuidv4\<close> yields one after the
  other, and the time.  A call that reports an error leaves its table as it was.
\<close>

record faults =
  upsertResume :: "store_error option"
  deleteExperiences :: "store_error option"
  insertExperiences :: "store_error option"
  deleteEducation :: "store_error option"
  insertEducation :: "store_error option"
  deleteCertifications :: "store_error option"
  insertCertifications :: "store_error option"

record env =
  faultsOf :: faults
  uuid :: "nat \<Rightarrow> string"
  now :: string

definition uuidv4 :: "env \<Rightarrow> world \<Rightarrow> string \<times> world" where
  "uuidv4 en w = (uuid en (uuidCount w), w\<lparr>uuidCount := Suc (uuidCount w)\<rparr>)"

text \<open>\<open>xs.map((x, index) => ({ id: uuidv4(), ... }))\<close>: one identifier for each element.\<close>

fun mapRows :: "env \<Rightarrow> (string \<Rightarrow> nat \<Rightarrow> 'a \<Rightarrow> 'b) \<Rightarrow> nat \<Rightarrow> 'a list \<Rightarrow> world \<Rightarrow> 'b list \<times> world" where
  "mapRows en f index [] w = ([], w)"
| "mapRows en f index (x # xs) w =
     (let (i, w1) = uuidv4 en w;
          (rows, w2) = mapRows en f (Suc index) xs w1
      in (f i index x # rows, w2))"

text \<open>The outcome of a step inside the \<open>try\<close> block: an error thrown, or the new state.\<close>

definition saveExperiences :: "env \<Rightarrow> Resume \<Rightarrow> string \<Rightarrow> world \<Rightarrow> store_error option \<times> world" where
  "saveExperiences en resume resumeId w =
     (if atLeast_len (experience resume) 1 then
        (let w1 = (case deleteExperiences (faultsOf en) of
                     Some e \<Rightarrow> w
                   | None \<Rightarrow> w\<lparr>db := (db w)\<lparr>resume_experiences :=
                       filter (\<lambda>row. x_resume_id row \<noteq> resumeId) (resume_experiences (db w))\<rparr>\<rparr>);
             (experienceData, w2) = mapRows en
               (\<lambda>i index exp. \<lparr>x_id = i, x_resume_id = resumeId, x_company = company exp,
                   x_position = position exp, x_start_date = exp_startDate exp,
                   x_end_date = exp_endDate exp, x_description = exp_description exp,
                   x_order_index = index\<rparr>) 0 (the (experience resume)) w1
         in case insertExperiences (faultsOf en) of
              Some expError \<Rightarrow> (Some expError, w2)
            | None \<Rightarrow> (None, w2\<lparr>db := (db w2)\<lparr>resume_experiences :=
                         resume_experiences (db w2) @ experienceData\<rparr>\<rparr>))
      else (None, w))"

definition saveEducation :: "env \<Rightarrow> Resume \<Rightarrow> string \<Rightarrow> world \<Rightarrow> store_error option \<times> world" where
  "saveEducation en resume resumeId w =
     (if atLeast_len (education resume) 1 then
        (let w1 = (case deleteEducation (faultsOf en) of
                     Some e \<Rightarrow> w
                   | None \<Rightarrow> w\<lparr>db := (db w)\<lparr>resume_education :=
                       filter (\<lambda>row. e_resume_id row \<noteq> resumeId) (resume_education (db w))\<rparr>\<rparr>);
             (educationData, w2) = mapRows en
               (\<lambda>i index edu. \<lparr>e_id = i, e_resume_id = resumeId, e_institution = institution edu,
                   e_degree = degree edu, e_field_of_study = fieldOfStudy edu,
                   e_start_date = edu_startDate edu, e_end_date = edu_endDate edu,
                   e_description = edu_description edu, e_order_index = index\<rparr>)
               0 (the (education resume)) w1
         in case insertEducation (faultsOf en) of
              Some eduError \<Rightarrow> (Some eduError, w2)
            | None \<Rightarrow> (None, w2\<lparr>db := (db w2)\<lparr>resume_education :=
                         resume_education (db w2) @ educationData\<rparr>\<rparr>))
      else (None, w))"

definition saveCertifications :: "env \<Rightarrow> Resume \<Rightarrow> string \<Rightarrow> world \<Rightarrow> store_error option \<times> world" where
  "saveCertifications en resume resumeId w =
     (if atLeast_len (certifications resume) 1 then
        (let w1 = (case deleteCertifications (faultsOf en) of
                     Some e \<Rightarrow> w
                   | None \<Rightarrow> w\<lparr>db := (db w)\<lparr>resume_certifications :=
                       filter (\<lambda>row. c_resume_id row \<noteq> resumeId) (resume_certifications (db w))\<rparr>\<rparr>);
             (certificationData, w2) = mapRows en
               (\<lambda>i index cert. \<lparr>c_id = i, c_resume_id = resumeId, c_name = cert_name cert,
                   c_issuer = issuer cert, c_date = date cert,
                   c_description = cert_description cert, c_order_index = index\<rparr>)
               0 (the (certifications resume)) w1
         in case insertCertifications (faultsOf en) of
              Some certError \<Rightarrow> (Some certError, w2)
            | None \<Rightarrow> (None, w2\<lparr>db := (db w2)\<lparr>resume_certifications :=
                         resume_certifications (db w2) @ certificationData\<rparr>\<rparr>))
      else (None, w))"

text \<open>\<open>resume.id || uuidv4()\<close>: no identifier is drawn when the record has one.\<close>

definition chooseId :: "env \<Rightarrow> Resume \<Rightarrow> world \<Rightarrow> string \<times> world" where
  "chooseId en resume w = (if truthy (ident resume) then (the (ident resume), w) else uuidv4 en w)"

definition resumeData :: "env \<Rightarrow> Resume \<Rightarrow> string \<Rightarrow> resume_row" where
  "resumeData en resume resumeId =
     \<lparr>r_id = resumeId, r_name = name resume, r_email = email resume, r_phone = phone resume,
      r_location = location resume, r_linkedin = linkedin resume, r_website = website resume,
      r_summary = summary resume, r_skills = skills resume, r_created_at = now en\<rparr>"

record save_result =
  res_id :: string
  res_error :: "store_error option"

text \<open>
  \<open>saveResume\<close>: the first error thrown inside \<open>try\<close> ends the function in the \<open>catch\<close>
  block, which returns the empty identifier with the error.
\<close>

definition saveResume :: "env \<Rightarrow> Resume \<Rightarrow> world \<Rightarrow> save_result \<times> world" where
  "saveResume en resume w =
     (let (resumeId, w0) = chooseId en resume w
      in case upsertResume (faultsOf en) of
           Some resumeError \<Rightarrow> (\<lparr>res_id = [], res_error = Some resumeError\<rparr>, w0)
         | None \<Rightarrow>
            (let w1 = w0\<lparr>db := (db w0)\<lparr>resumes :=
                        (resumes (db w0))(resumeId \<mapsto> resumeData en resume resumeId)\<rparr>\<rparr>
             in case saveExperiences en resume resumeId w1 of
                  (Some e, w2) \<Rightarrow> (\<lparr>res_id = [], res_error = Some e\<rparr>, w2)
                | (None, w2) \<Rightarrow>
                   (case saveEducation en resume resumeId w2 of
                      (Some e, w3) \<Rightarrow> (\<lparr>res_id = [], res_error = Some e\<rparr>, w3)
                    | (None, w3) \<Rightarrow>
                       (case saveCertifications en resume resumeId w3 of
                          (Some e, w4) \<Rightarrow> (\<lparr>res_id = [], res_error = Some e\<rparr>, w4)
                        | (None, w4) \<Rightarrow> (\<lparr>res_id = resumeId, res_error = None\<rparr>, w4)))))"

text \<open>
  \<open>onSubmit\<close> of the builder form (ResumeBuilder.tsx): the blank skills are dropped and the
  identifier of the record being edited is kept.
\<close>

definition onSubmit :: "Resume option \<Rightarrow> Resume \<Rightarrow> Resume" where
  "onSubmit initialResume formData =
     (let data1 = formData\<lparr>skills := Some (case skills formData of
                     None \<Rightarrow> []
                   | Some xs \<Rightarrow> filter (\<lambda>skill. trim skill \<noteq> []) xs)\<rparr>
      in case initialResume of
           None \<Rightarrow> data1
         | Some r0 \<Rightarrow> if truthy (ident r0) then data1\<lparr>ident := ident r0\<rparr> else data1)"

text \<open>
  \<open>handleResumeBuilt\<close> (App.tsx) on the part of the component state that concerns the
  record: the current record, the error message, the tab and the saving flag.  The list of
  saved records, which is read back from the store afterwards, is left out.
\<close>

datatype tab = Upload | Build | Analyze | ListTab

record app_state =
  resume :: "Resume option"
  saveError :: "string option"
  activeTab :: tab
  isSaving :: bool

definition handleResumeBuilt :: "env \<Rightarrow> Resume \<Rightarrow> app_state \<times> world \<Rightarrow> app_state \<times> world" where
  "handleResumeBuilt en resumeData' st =
     (let app1 = (fst st)\<lparr>isSaving := True, saveError := None\<rparr>;
          (res, w') = saveResume en resumeData' (snd st)
      in case res_error res of
           Some e \<Rightarrow>
             (app1\<lparr>saveError := Some ''Failed to save resume. Please try again.'',
                   isSaving := False\<rparr>, w')
         | None \<Rightarrow>
             (app1\<lparr>resume := Some (resumeData'\<lparr>ident := Some (res_id res)\<rparr>),
                   activeTab := Analyze, isSaving := False\<rparr>, w'))"

text \<open>Sample inputs: an empty store, a generator of identifiers, and two records.\<close>

definition emptyWorld :: world where
  "emptyWorld = \<lparr>db = \<lparr>resumes = Map.empty, resume_experiences = [], resume_education = [],
                         resume_certifications = []\<rparr>, uuidCount = 0\<rparr>"

definition noFaults :: faults where
  "noFaults = \<lparr>upsertResume = None, deleteExperiences = None, insertExperiences = None,
               deleteEducation = None, insertEducation = None, deleteCertifications = None,
               insertCertifications = None\<rparr>"

definition sampleEnv :: "faults \<Rightarrow> env" where
  "sampleEnv fs = \<lparr>faultsOf = fs, uuid = (\<lambda>n. replicate (Suc n) CHR ''u''),
                    now = ''2025-01-01T00:00:00.000Z''\<rparr>"

definition savedBefore :: Resume where
  "savedBefore = (bareResume ''Jane Doe'')\<lparr>ident := Some ''id-1''\<rparr>"

definition insertFails :: faults where
  "insertFails = noFaults\<lparr>insertExperiences := Some (StoreError ''insert failed'')\<rparr>"

definition upsertFails :: faults where
  "upsertFails = noFaults\<lparr>upsertResume := Some (StoreError ''upsert failed'')\<rparr>"

text \<open>A store whose delete of the old experience rows fails.\<close>

definition deleteFails :: faults where
  "deleteFails = noFaults\<lparr>deleteExperiences := Some (StoreError ''delete failed'')\<rparr>"

text \<open>The state after a save of a new record whose insert of the experience rows failed.\<close>

definition afterFailedInsert :: world where
  "afterFailedInsert = snd (saveResume (sampleEnv insertFails) oneJob emptyWorld)"

text \<open>The component state before anything has been saved.\<close>

definition startApp :: app_state where
  "startApp = \<lparr>resume = None, saveError = None, activeTab = Build, isSaving = False\<rparr>"

section \<open>Properties of the scoring engine\<close>

lemma addStrength_simps:
  "score (addStrength n m a) = score a + n"
  "strengths (addStrength n m a) = strengths a @ [m]"
  "improvements (addStrength n m a) = improvements a"
  by (simp_all add: addStrength_def)

lemma addImprovement_simps:
  "score (addImprovement m a) = score a"
  "strengths (addImprovement m a) = strengths a"
  "improvements (addImprovement m a) = improvements a @ [m]"
  by (simp_all add: addImprovement_def)

lemmas push_simps = addStrength_simps addImprovement_simps

subsection \<open>The score is the sum of the points of the rules that hold\<close>

lemma score_checkContact:
  "score (checkContact r a) = score a + (if truthy (email r) \<and> truthy (phone r) then 10 else 0)"
  by (simp add: checkContact_def push_simps)

lemma score_checkSummary:
  "score (checkSummary r a) =
     score a + (if truthy (summary r) \<and> length (the (summary r)) > 50 then 15 else 0)"
  by (simp add: checkSummary_def push_simps)

lemma score_checkSkills:
  "score (checkSkills r a) = score a + (if atLeast_len (skills r) 5 then 15 else 0)"
  by (simp add: checkSkills_def push_simps)

lemma score_checkExperience:
  "score (checkExperience r a) =
     score a + (if atLeast_len (experience r) 2
                then 20 + (if hasQuantifiableAchievements (the (experience r)) then 10 else 0)
                else 0)"
  by (simp add: checkExperience_def push_simps Let_def)

lemma score_checkEducation:
  "score (checkEducation r a) = score a + (if atLeast_len (education r) 1 then 10 else 0)"
  by (simp add: checkEducation_def push_simps)

lemma score_checkKeywords:
  "score (checkKeywords r a) = score a + (if length (keywordsFound r) \<ge> 5 then 10 else 0)"
  by (simp add: checkKeywords_def push_simps)

lemma score_checkCertifications:
  "score (checkCertifications r a) =
     score a + (if atLeast_len (certifications r) 1 then 10 else 0)"
  by (simp add: checkCertifications_def push_simps)

lemmas score_checks = score_checkContact score_checkSummary score_checkSkills
  score_checkExperience score_checkEducation score_checkKeywords score_checkCertifications

lemma score_analyzeResume:
  "score (analyzeResume r) =
     (if truthy (email r) \<and> truthy (phone r) then 10 else 0)
   + (if truthy (summary r) \<and> length (the (summary r)) > 50 then 15 else 0)
   + (if atLeast_len (skills r) 5 then 15 else 0)
   + (if atLeast_len (experience r) 2
      then 20 + (if hasQuantifiableAchievements (the (experience r)) then 10 else 0)
      else 0)
   + (if atLeast_len (education r) 1 then 10 else 0)
   + (if length (keywordsFound r) \<ge> 5 then 10 else 0)
   + (if atLeast_len (certifications r) 1 then 10 else 0)"
  unfolding analyzeResume_def score_checks by simp

text \<open>
  Claim C1.  For every record, the score that \<open>analyzeResume\<close> returns is an integer
  between 0 and 100.
\<close>

theorem analyzeResume_score_bounds:
  "0 \<le> score (analyzeResume r) \<and> score (analyzeResume r) \<le> 100"
  unfolding score_analyzeResume by simp

theorem analyzeResume_score_bounds_witness:
  "0 \<le> score (analyzeResume scenarioB) \<and> score (analyzeResume scenarioB) \<le> 100"
  by (rule analyzeResume_score_bounds [of scenarioB])

subsection \<open>The findings of each rule\<close>

lemma findings_checkContact:
  "strengths (checkContact r a) = strengths a @
     (if truthy (email r) \<and> truthy (phone r) then [''Complete contact information provided''] else [])"
  "improvements (checkContact r a) = improvements a @
     (if truthy (email r) \<and> truthy (phone r) then []
      else [''Add complete contact information (email and phone)''])"
  by (simp_all add: checkContact_def push_simps)

lemma findings_checkSummary:
  "strengths (checkSummary r a) = strengths a @
     (if truthy (summary r) \<and> length (the (summary r)) > 50
      then [''Strong professional summary included''] else [])"
  "improvements (checkSummary r a) = improvements a @
     (if truthy (summary r) \<and> length (the (summary r)) > 50 then []
      else [''Add a compelling professional summary (50+ characters)''])"
  by (simp_all add: checkSummary_def push_simps)

lemma findings_checkSkills:
  "strengths (checkSkills r a) = strengths a @
     (if atLeast_len (skills r) 5 then [''Good range of skills listed''] else [])"
  "improvements (checkSkills r a) = improvements a @
     (if atLeast_len (skills r) 5 then [] else [''List at least 5 relevant skills''])"
  by (simp_all add: checkSkills_def push_simps)

lemma findings_checkExperience:
  "strengths (checkExperience r a) = strengths a @
     (if atLeast_len (experience r) 2 \<and> hasQuantifiableAchievements (the (experience r))
      then [''Experience includes quantifiable achievements''] else [])"
  "improvements (checkExperience r a) = improvements a @
     (if atLeast_len (experience r) 2
      then (if hasQuantifiableAchievements (the (experience r)) then []
            else [''Add quantifiable achievements to work experience (e.g., percentages, numbers)''])
      else [''Include at least 2 relevant work experiences''])"
  by (simp_all add: checkExperience_def push_simps Let_def)

lemma findings_checkEducation:
  "strengths (checkEducation r a) = strengths a @
     (if atLeast_len (education r) 1 then [''Education details included''] else [])"
  "improvements (checkEducation r a) = improvements a @
     (if atLeast_len (education r) 1 then [] else [''Add education details''])"
  by (simp_all add: checkEducation_def push_simps)

lemma findings_checkKeywords:
  "strengths (checkKeywords r a) = strengths a @
     (if length (keywordsFound r) \<ge> 5 then [''Good use of action verbs and keywords''] else [])"
  "improvements (checkKeywords r a) = improvements a @
     (if length (keywordsFound r) \<ge> 5 then []
      else [''Use more action verbs and industry keywords''])"
  by (simp_all add: checkKeywords_def push_simps)

lemma findings_checkCertifications:
  "strengths (checkCertifications r a) = strengths a @
     (if atLeast_len (certifications r) 1
      then [''Certifications or additional qualifications included''] else [])"
  "improvements (checkCertifications r a) = improvements a @
     (if atLeast_len (certifications r) 1 then []
      else [''Consider adding relevant certifications or additional qualifications''])"
  by (simp_all add: checkCertifications_def push_simps)

lemmas findings_checks = findings_checkContact findings_checkSummary findings_checkSkills
  findings_checkExperience findings_checkEducation findings_checkKeywords
  findings_checkCertifications

lemma strengths_analyzeResume:
  "strengths (analyzeResume r) =
     (if truthy (email r) \<and> truthy (phone r) then [''Complete contact information provided''] else [])
   @ (if truthy (summary r) \<and> length (the (summary r)) > 50
      then [''Strong professional summary included''] else [])
   @ (if atLeast_len (skills r) 5 then [''Good range of skills listed''] else [])
   @ (if atLeast_len (experience r) 2 \<and> hasQuantifiableAchievements (the (experience r))
      then [''Experience includes quantifiable achievements''] else [])
   @ (if atLeast_len (education r) 1 then [''Education details included''] else [])
   @ (if length (keywordsFound r) \<ge> 5 then [''Good use of action verbs and keywords''] else [])
   @ (if atLeast_len (certifications r) 1
      then [''Certifications or additional qualifications included''] else [])"
  unfolding analyzeResume_def findings_checks by simp

lemma improvements_analyzeResume:
  "improvements (analyzeResume r) =
     (if truthy (email r) \<and> truthy (phone r) then []
      else [''Add complete contact information (email and phone)''])
   @ (if truthy (summary r) \<and> length (the (summary r)) > 50 then []
      else [''Add a compelling professional summary (50+ characters)''])
   @ (if atLeast_len (skills r) 5 then [] else [''List at least 5 relevant skills''])
   @ (if atLeast_len (experience r) 2
      then (if hasQuantifiableAchievements (the (experience r)) then []
            else [''Add quantifiable achievements to work experience (e.g., percentages, numbers)''])
      else [''Include at least 2 relevant work experiences''])
   @ (if atLeast_len (education r) 1 then [] else [''Add education details''])
   @ (if length (keywordsFound r) \<ge> 5 then []
      else [''Use more action verbs and industry keywords''])
   @ (if atLeast_len (certifications r) 1 then []
      else [''Consider adding relevant certifications or additional qualifications''])"
  unfolding analyzeResume_def findings_checks by simp


lemmas regex_defs = regexTest_def inClass_def repCounts_def isWhiteSpace_def isLineTerminator_def
  toUpperChar_def toLowerChar_def upperChars_def lowerChars_def

subsection \<open>Rule 5 is gated by rule 4\<close>

lemma atLeast_len_experienceCount: "atLeast_len (experience r) n = (experience r \<noteq> None \<and> n \<le> experienceCount r)"
  by (cases "experience r") (simp_all add: experienceCount_def)

text \<open>
  Claim C2.  When the record has fewer than two experience entries, rule 5 gives neither
  its strength nor its points (and not its improvement either), whatever the
  descriptions say: the score is the sum of the points of the six rules other than 4
  and 5.
\<close>

theorem rule5_needs_two_experiences:
  assumes "experienceCount r < 2"
  shows "''Experience includes quantifiable achievements'' \<notin> set (strengths (analyzeResume r))
       \<and> ''Add quantifiable achievements to work experience (e.g., percentages, numbers)''
             \<notin> set (improvements (analyzeResume r))
       \<and> score (analyzeResume r) =
             (if truthy (email r) \<and> truthy (phone r) then 10 else 0)
           + (if truthy (summary r) \<and> length (the (summary r)) > 50 then 15 else 0)
           + (if atLeast_len (skills r) 5 then 15 else 0)
           + (if atLeast_len (education r) 1 then 10 else 0)
           + (if length (keywordsFound r) \<ge> 5 then 10 else 0)
           + (if atLeast_len (certifications r) 1 then 10 else 0)"
proof -
  from assms have gate: "\<not> atLeast_len (experience r) 2"
    by (simp add: atLeast_len_experienceCount)
  have s: "''Experience includes quantifiable achievements'' \<notin> set (strengths (analyzeResume r))"
    unfolding strengths_analyzeResume using gate by simp
  have i: "''Add quantifiable achievements to work experience (e.g., percentages, numbers)''
             \<notin> set (improvements (analyzeResume r))"
    unfolding improvements_analyzeResume using gate by simp
  have p: "score (analyzeResume r) =
             (if truthy (email r) \<and> truthy (phone r) then 10 else 0)
           + (if truthy (summary r) \<and> length (the (summary r)) > 50 then 15 else 0)
           + (if atLeast_len (skills r) 5 then 15 else 0)
           + (if atLeast_len (education r) 1 then 10 else 0)
           + (if length (keywordsFound r) \<ge> 5 then 10 else 0)
           + (if atLeast_len (certifications r) 1 then 10 else 0)"
    unfolding score_analyzeResume using gate by simp
  from s i p show ?thesis by blast
qed

lemma oneJob_count: "experienceCount oneJob < 2"
  by (simp add: experienceCount_def oneJob_def bareResume_def)

lemma oneJob_matches: "hasQuantifiableAchievements (the (experience oneJob))"
  by (simp add: oneJob_def bareResume_def flags_i_def achievementPattern_def regex_defs)


theorem rule5_needs_two_experiences_witness:
  "experienceCount oneJob < 2 \<and> hasQuantifiableAchievements (the (experience oneJob))
   \<and> ''Experience includes quantifiable achievements'' \<notin> set (strengths (analyzeResume oneJob))"
proof -
  from rule5_needs_two_experiences [OF oneJob_count] oneJob_count oneJob_matches
  show ?thesis by blast
qed

subsection \<open>The empty record\<close>

lemma keywordsFound_bare: "keywordsFound (bareResume ''Jane Doe'') = []"
  by code_simp

lemma keywordsFound_verbs:
  "keywordsFound (bareResume ''Managed, developed, created, implemented and led'')
     = [''managed'', ''developed'', ''created'', ''implemented'', ''led'']"
  by code_simp

lemma emptyRecord_bare: "emptyRecord (bareResume n)"
  by (simp add: emptyRecord_def bareResume_def)

lemma emptyRecord_gates:
  assumes "emptyRecord r"
  shows "\<not> truthy (email r)" "\<not> truthy (summary r)" "\<not> atLeast_len (skills r) 5"
    "\<not> atLeast_len (experience r) 2" "\<not> atLeast_len (education r) 1"
    "\<not> atLeast_len (certifications r) 1"
proof -
  have *: "isEmptySeq xs \<Longrightarrow> 0 < n \<Longrightarrow> \<not> atLeast_len xs n" for xs :: "'a list option" and n
    by (cases xs) auto
  from assms show "\<not> truthy (email r)" "\<not> truthy (summary r)"
    by (simp_all add: emptyRecord_def)
  from assms show "\<not> atLeast_len (skills r) 5" "\<not> atLeast_len (experience r) 2"
    "\<not> atLeast_len (education r) 1" "\<not> atLeast_len (certifications r) 1"
    by (simp_all add: emptyRecord_def *)
qed

text \<open>
  Claim C3, as amended.  For an empty record whose serialised text holds fewer than five
  of the twelve keywords, \<open>analyzeResume\<close> returns the score 0, no strength and exactly
  the seven improvements of the rules other than rule 5.
\<close>

theorem empty_record_analysis:
  assumes "emptyRecord r" and "length (keywordsFound r) < 5"
  shows "score (analyzeResume r) = 0
       \<and> strengths (analyzeResume r) = []
       \<and> improvements (analyzeResume r) =
           [''Add complete contact information (email and phone)'',
            ''Add a compelling professional summary (50+ characters)'',
            ''List at least 5 relevant skills'',
            ''Include at least 2 relevant work experiences'',
            ''Add education details'',
            ''Use more action verbs and industry keywords'',
            ''Consider adding relevant certifications or additional qualifications'']
       \<and> length (improvements (analyzeResume r)) = 7"
proof -
  note g = emptyRecord_gates [OF assms(1)]
  from assms(2) have k: "\<not> 5 \<le> length (keywordsFound r)" by simp
  have sc: "score (analyzeResume r) = 0"
    unfolding score_analyzeResume using g k by simp
  have st: "strengths (analyzeResume r) = []"
    unfolding strengths_analyzeResume using g k by simp
  have im: "improvements (analyzeResume r) =
           [''Add complete contact information (email and phone)'',
            ''Add a compelling professional summary (50+ characters)'',
            ''List at least 5 relevant skills'',
            ''Include at least 2 relevant work experiences'',
            ''Add education details'',
            ''Use more action verbs and industry keywords'',
            ''Consider adding relevant certifications or additional qualifications'']"
    unfolding improvements_analyzeResume using g k by simp
  from sc st im show ?thesis by simp
qed

theorem empty_record_analysis_witness:
  "emptyRecord (bareResume ''Jane Doe'') \<and> length (keywordsFound (bareResume ''Jane Doe'')) < 5
   \<and> score (analyzeResume (bareResume ''Jane Doe'')) = 0
   \<and> strengths (analyzeResume (bareResume ''Jane Doe'')) = []
   \<and> length (improvements (analyzeResume (bareResume ''Jane Doe''))) = 7"
proof -
  have e: "emptyRecord (bareResume ''Jane Doe'')" by (rule emptyRecord_bare)
  have k: "length (keywordsFound (bareResume ''Jane Doe'')) < 5" by (simp add: keywordsFound_bare)
  from empty_record_analysis [OF e k] e k show ?thesis by blast
qed

text \<open>
  Claim C3 as stated fails: the name is part of the serialised text that rule 7 scans, so
  an empty record whose name carries five keywords scores 10, with one strength and six
  improvements.
\<close>

theorem empty_record_with_verbs_in_name:
  "emptyRecord (bareResume ''Managed, developed, created, implemented and led'')
   \<and> score (analyzeResume (bareResume ''Managed, developed, created, implemented and led'')) = 10
   \<and> strengths (analyzeResume (bareResume ''Managed, developed, created, implemented and led''))
       = [''Good use of action verbs and keywords'']
   \<and> length (improvements (analyzeResume (bareResume ''Managed, developed, created, implemented and led''))) = 6"
proof -
  let ?r = "bareResume ''Managed, developed, created, implemented and led''"
  have e: "emptyRecord ?r" by (rule emptyRecord_bare)
  note g = emptyRecord_gates [OF e]
  have k: "5 \<le> length (keywordsFound ?r)" by (simp add: keywordsFound_verbs)
  have sc: "score (analyzeResume ?r) = 10"
    unfolding score_analyzeResume using g k by simp
  have st: "strengths (analyzeResume ?r) = [''Good use of action verbs and keywords'']"
    unfolding strengths_analyzeResume using g k by simp
  have im: "length (improvements (analyzeResume ?r)) = 6"
    unfolding improvements_analyzeResume using g k by simp
  from e sc st im show ?thesis by blast
qed


subsection \<open>Adding contact details\<close>

lemma withContact_fields:
  "email (withContact r e p) = Some e" "phone (withContact r e p) = Some p"
  "summary (withContact r e p) = summary r" "skills (withContact r e p) = skills r"
  "experience (withContact r e p) = experience r" "education (withContact r e p) = education r"
  "certifications (withContact r e p) = certifications r"
  by (simp_all add: withContact_def)

lemma keywordsFound_contact_plain:
  "keywordsFound (withContact (bareResume ''Jane Doe'') ''jane@x.com'' ''555-123-4567'') = []"
  by code_simp

lemma keywordsFound_contact_verbs:
  "keywordsFound (withContact (bareResume ''Jane Doe'')
      ''led.managed.developed.created@implemented.com'' ''555-123-4567'')
     = [''managed'', ''developed'', ''created'', ''implemented'', ''led'']"
  by code_simp

text \<open>
  Claim C4, as amended.  When a record has neither e-mail address nor phone number, an
  otherwise identical copy with both set, on which the keyword rule (rule 7) comes out as
  on the original, scores exactly 10 more; the contact finding leaves the improvements
  and enters the strengths, all other findings stay.
\<close>

theorem adding_contact_details:
  assumes "\<not> truthy (email r)" and "\<not> truthy (phone r)" and "e \<noteq> []" and "p \<noteq> []"
    and "(5 \<le> length (keywordsFound (withContact r e p))) = (5 \<le> length (keywordsFound r))"
  shows "score (analyzeResume (withContact r e p)) = score (analyzeResume r) + 10
       \<and> strengths (analyzeResume (withContact r e p))
           = ''Complete contact information provided'' # strengths (analyzeResume r)
       \<and> improvements (analyzeResume r)
           = ''Add complete contact information (email and phone)''
               # improvements (analyzeResume (withContact r e p))
       \<and> ''Complete contact information provided'' \<notin> set (strengths (analyzeResume r))
       \<and> ''Add complete contact information (email and phone)''
             \<notin> set (improvements (analyzeResume (withContact r e p)))"
proof -
  let ?r' = "withContact r e p"
  note f = withContact_fields [of r e p]
  have sc: "score (analyzeResume ?r') = score (analyzeResume r) + 10"
    unfolding score_analyzeResume f using assms by simp
  have st: "strengths (analyzeResume ?r')
           = ''Complete contact information provided'' # strengths (analyzeResume r)"
    unfolding strengths_analyzeResume f using assms by simp
  have im: "improvements (analyzeResume r)
           = ''Add complete contact information (email and phone)'' # improvements (analyzeResume ?r')"
    unfolding improvements_analyzeResume f using assms by simp
  have n1: "''Complete contact information provided'' \<notin> set (strengths (analyzeResume r))"
    unfolding strengths_analyzeResume using assms(1) by simp
  have n2: "''Add complete contact information (email and phone)''
             \<notin> set (improvements (analyzeResume ?r'))"
    unfolding improvements_analyzeResume f using assms(3,4) by simp
  from sc st im n1 n2 show ?thesis by blast
qed

theorem adding_contact_details_witness:
  "\<not> truthy (email (bareResume ''Jane Doe'')) \<and> \<not> truthy (phone (bareResume ''Jane Doe''))
   \<and> score (analyzeResume (withContact (bareResume ''Jane Doe'') ''jane@x.com'' ''555-123-4567''))
       = score (analyzeResume (bareResume ''Jane Doe'')) + 10
   \<and> strengths (analyzeResume (withContact (bareResume ''Jane Doe'') ''jane@x.com'' ''555-123-4567''))
       = ''Complete contact information provided'' # strengths (analyzeResume (bareResume ''Jane Doe''))"
proof -
  let ?r = "bareResume ''Jane Doe''"
  have a: "\<not> truthy (email ?r)" and b: "\<not> truthy (phone ?r)"
    by (simp_all add: bareResume_def)
  have c: "''jane@x.com'' \<noteq> []" and d: "''555-123-4567'' \<noteq> []" by simp_all
  have k: "(5 \<le> length (keywordsFound (withContact ?r ''jane@x.com'' ''555-123-4567'')))
            = (5 \<le> length (keywordsFound ?r))"
    by (simp add: keywordsFound_contact_plain keywordsFound_bare)
  from adding_contact_details [OF a b c d k] a b show ?thesis by blast
qed

text \<open>
  Claim C4 as stated fails: the new e-mail address is part of the text that rule 7 scans,
  and an address that carries five keywords raises the score by 20.
\<close>

theorem adding_contact_details_with_verbs:
  "\<not> truthy (email (bareResume ''Jane Doe'')) \<and> \<not> truthy (phone (bareResume ''Jane Doe''))
   \<and> score (analyzeResume (bareResume ''Jane Doe'')) = 0
   \<and> score (analyzeResume (withContact (bareResume ''Jane Doe'')
         ''led.managed.developed.created@implemented.com'' ''555-123-4567'')) = 20"
proof -
  let ?r = "bareResume ''Jane Doe''"
  let ?r' = "withContact ?r ''led.managed.developed.created@implemented.com'' ''555-123-4567''"
  have a: "\<not> truthy (email ?r)" and b: "\<not> truthy (phone ?r)"
    by (simp_all add: bareResume_def)
  note g = emptyRecord_gates [OF emptyRecord_bare [of "''Jane Doe''"]]
  have s0: "score (analyzeResume ?r) = 0"
    unfolding score_analyzeResume using g by (simp add: keywordsFound_bare)
  have s1: "score (analyzeResume ?r') = 20"
    unfolding score_analyzeResume withContact_fields using g
    by (simp add: keywordsFound_contact_verbs)
  from a b s0 s1 show ?thesis by blast
qed


section \<open>Properties of the matcher\<close>

declare regexExec.simps [simp del]

lemma sublist_trans: "sublist a b \<Longrightarrow> sublist b c \<Longrightarrow> sublist a c"
  unfolding sublist_def by (metis append.assoc)

lemma suffix_sublist_trans: "sublist g t \<Longrightarrow> suffix t s \<Longrightarrow> sublist g s"
  unfolding sublist_def suffix_def by (metis append.assoc)

lemma litMatch_suffix: "litMatch f w s = Some s' \<Longrightarrow> suffix s' s"
  by (induction f w s rule: litMatch.induct) (auto split: if_splits intro: suffix_ConsI)

lemma rmatch_sound:
  "(s', c') \<in> set (rmatch f r (s, c)) \<Longrightarrow>
     suffix s' s \<and> (\<forall>n g. c' n = Some g \<longrightarrow> c n = Some g \<or> sublist g s)"
proof (induction r arbitrary: s c s' c')
  case (Atom cls)
  then show ?case by (auto split: list.splits if_splits intro: suffix_ConsI)
next
  case (Lit w)
  then show ?case by (auto split: option.splits dest: litMatch_suffix [OF sym])
next
  case (Rep cls lo hi g)
  then show ?case by (auto simp: suffix_drop)
next
  case (Seq r1 r2)
  from Seq.prems obtain s1 c1 where
    a: "(s1, c1) \<in> set (rmatch f r1 (s, c))" and b: "(s', c') \<in> set (rmatch f r2 (s1, c1))"
    by auto
  from Seq.IH(1) [OF a] have a1: "suffix s1 s"
    and a2: "\<And>n g. c1 n = Some g \<Longrightarrow> c n = Some g \<or> sublist g s" by auto
  from Seq.IH(2) [OF b] have b1: "suffix s' s1"
    and b2: "\<And>n g. c' n = Some g \<Longrightarrow> c1 n = Some g \<or> sublist g s1" by auto
  from a1 b1 have "suffix s' s" by (rule suffix_order.trans [rotated])
  moreover have "c n = Some g \<or> sublist g s" if "c' n = Some g" for n g
    using b2 [OF that] a2 a1 suffix_sublist_trans by blast
  ultimately show ?case by blast
next
  case (Alt r1 r2)
  from Alt.prems have
    "(s', c') \<in> set (rmatch f r1 (s, c)) \<or> (s', c') \<in> set (rmatch f r2 (s, c))"
    by simp
  then show ?case using Alt.IH by blast
next
  case (Opt r)
  from Opt.prems have "(s', c') \<in> set (rmatch f r (s, c)) \<or> (s', c') = (s, c)"
    by auto
  then show ?case
  proof
    assume "(s', c') \<in> set (rmatch f r (s, c))"
    then show ?thesis by (rule Opt.IH)
  next
    assume "(s', c') = (s, c)"
    then show ?thesis by simp
  qed
next
  case (Cap k r)
  from Cap.prems obtain s1 c1 where
    a: "(s1, c1) \<in> set (rmatch f r (s, c))" and s': "s' = s1"
    and c': "c' = c1(k \<mapsto> take (length s - length s1) s)"
    by auto
  from Cap.IH [OF a] have a1: "suffix s1 s"
    and a2: "\<And>n g. c1 n = Some g \<Longrightarrow> c n = Some g \<or> sublist g s" by auto
  have "c n = Some g \<or> sublist g s" if "c' n = Some g" for n g
    using that a2 unfolding c' by (cases "n = k") auto
  with a1 s' show ?case by blast
next
  case EOI
  then show ?case by (auto split: if_splits)
qed

lemma rmatch_keeps_captures:
  "(s', c') \<in> set (rmatch f r (s, c)) \<Longrightarrow> c n \<noteq> None \<Longrightarrow> c' n \<noteq> None"
proof (induction r arbitrary: s c s' c')
  case (Seq r1 r2)
  from Seq.prems(1) obtain s1 c1 where
    a: "(s1, c1) \<in> set (rmatch f r1 (s, c))" and b: "(s', c') \<in> set (rmatch f r2 (s1, c1))"
    by auto
  from Seq.IH(2) [OF b Seq.IH(1) [OF a Seq.prems(2)]] show ?case .
next
  case (Cap k r)
  then show ?case by (cases "n = k") auto
qed (auto split: list.splits if_splits option.splits)

lemma rmatch_Cap_sets:
  "(s', c') \<in> set (rmatch f (Cap n r) (s, c)) \<Longrightarrow> c' n \<noteq> None"
  by auto

lemma sectionPattern_captures:
  assumes "(s', c') \<in> set (rmatch f (sectionPattern h) (s, c))"
  shows "c' 1 \<noteq> None"
proof -
  let ?ends = "Alt (Lit [CHR 0x0A, CHR 0x0A])
         (Alt (Seq (Atom [Ch CHR 0x0A]) (Atom [Rng CHR ''A'' CHR ''Z''])) EOI)"
  from assms obtain s1 c1 s2 c2 s3 c3 where
    "(s1, c1) \<in> set (rmatch f (Lit h) (s, c))"
    "(s2, c2) \<in> set (rmatch f (Rep [Ch CHR '':''] 0 (Some 1) True) (s1, c1))"
    and cap: "(s3, c3) \<in> set (rmatch f (Cap 1 (Rep [Dot] 0 None False)) (s2, c2))"
    and ends: "(s', c') \<in> set (rmatch f ?ends (s3, c3))"
    unfolding sectionPattern_def rmatch.simps(4) by (auto simp del: rmatch.simps)
  from rmatch_Cap_sets [OF cap] have "c3 1 \<noteq> None" .
  from rmatch_keeps_captures [OF ends this] show ?thesis .
qed

lemma regexExec_sound:
  "regexExec f r s = Some (m, c) \<Longrightarrow>
     sublist m s \<and> (\<forall>n g. c n = Some g \<longrightarrow> sublist g s) \<and>
     (\<exists>t s'. suffix t s \<and> (s', c) \<in> set (rmatch f r (t, Map.empty)))"
proof (induction f r s rule: regexExec.induct)
  case (1 f r s)
  show ?case
  proof (cases "rmatch f r (s, Map.empty)")
    case Nil
    from "1.prems" Nil have "(case s of [] \<Rightarrow> None | _ # xs \<Rightarrow> regexExec f r xs) = Some (m, c)"
      by (simp add: regexExec.simps [of f r s] del: rmatch.simps)
    then obtain x xs where s: "s = x # xs" and e: "regexExec f r xs = Some (m, c)"
      by (cases s) simp_all
    from "1.IH" [OF Nil s e] s show ?thesis
      by (metis sublist_Cons_right suffix_ConsI)
  next
    case (Cons st rest)
    obtain s' c' where st: "st = (s', c')" by (cases st)
    from Cons st "1.prems" have m: "m = take (length s - length s') s" and c: "c = c'"
      by (simp_all add: regexExec.simps [of f r s] del: rmatch.simps)
    from Cons st have mem: "(s', c) \<in> set (rmatch f r (s, Map.empty))"
      unfolding c by simp
    from rmatch_sound [OF mem] have "\<forall>n g. c n = Some g \<longrightarrow> sublist g s" by simp
    with m mem show ?thesis by (metis sublist_take suffix_order.refl)
  qed
qed


section \<open>Properties of the extractor\<close>

lemma sublist_trim: "sublist (trim s) s"
proof -
  have "sublist (rev (dropWhile isWhiteSpace (rev (dropWhile isWhiteSpace s)))) (dropWhile isWhiteSpace s)"
    by (simp add: sublist_rev_left)
  moreover have "sublist (dropWhile isWhiteSpace s) s" by simp
  ultimately show ?thesis unfolding trim_def by (rule sublist_trans)
qed

lemma consHead_pieces:
  assumes "ps = l # ls" and "prefix l xs" and "\<forall>p \<in> set ls. sublist p xs"
  shows "\<exists>l' ls'. consHead x ps = l' # ls' \<and> prefix l' (x # xs) \<and> (\<forall>p \<in> set ls'. sublist p (x # xs))"
  using assms by (auto simp: sublist_Cons_right)

lemma splitOn_pieces:
  "\<exists>l ls. splitOn sep s = l # ls \<and> prefix l s \<and> (\<forall>p \<in> set ls. sublist p s)"
proof (induction s)
  case Nil
  show ?case by simp
next
  case (Cons x xs)
  then obtain l ls where e: "splitOn sep xs = l # ls" and p: "prefix l xs"
    and r: "\<forall>p \<in> set ls. sublist p xs" by blast
  show ?case
  proof (cases "sep x")
    case True
    with e p r show ?thesis by (auto simp: sublist_Cons_right)
  next
    case False
    with consHead_pieces [OF e p r, of x] show ?thesis by simp
  qed
qed

lemma splitOn_sublist: "p \<in> set (splitOn sep s) \<Longrightarrow> sublist p s"
  using splitOn_pieces [of sep s] by auto

lemma splitLines_pieces:
  "\<exists>l ls. splitLines s = l # ls \<and> prefix l s \<and> (\<forall>p \<in> set ls. sublist p s)"
proof (induction s rule: splitLines.induct)
  case 1
  show ?case by simp
next
  case (2 x)
  show ?case by simp
next
  case (3 x y ys)
  show ?case
  proof (cases "x = CHR 0x0A")
    case True
    with 3(1) show ?thesis by (auto simp: sublist_Cons_right)
  next
    case nl: False
    show ?thesis
    proof (cases "x = CHR 0x0D \<and> y = CHR 0x0A")
      case True
      with nl 3(2) obtain l ls where e: "splitLines ys = l # ls" and p: "prefix l ys"
        and r: "\<forall>p \<in> set ls. sublist p ys" by blast
      have "sublist q (x # y # ys)" if "sublist q ys" for q
        using that by (simp add: sublist_Cons_right)
      with True nl e p r show ?thesis by auto
    next
      case False
      with nl 3(3) obtain l ls where e: "splitLines (y # ys) = l # ls" and p: "prefix l (y # ys)"
        and r: "\<forall>p \<in> set ls. sublist p (y # ys)" by blast
      from nl False have "splitLines (x # y # ys) = consHead x (splitLines (y # ys))"
        by auto
      with consHead_pieces [OF e p r, of x] show ?thesis by simp
    qed
  qed
qed

lemma splitLines_sublist: "l \<in> set (splitLines s) \<Longrightarrow> sublist l s"
  using splitLines_pieces [of s] by auto

lemma firstOr_nonempty: "d \<noteq> [] \<Longrightarrow> firstOr xs d \<noteq> []"
  by (cases xs) auto

lemma filter_first:
  assumes "filter P xs = y # ys"
  shows "\<exists>i < length xs. xs ! i = y \<and> P y \<and> (\<forall>j < i. \<not> P (xs ! j))"
proof -
  from assms obtain us vs where xs: "xs = us @ y # vs" and us: "\<forall>u \<in> set us. \<not> P u" and y: "P y"
    unfolding filter_eq_Cons_iff by blast
  have "length us < length xs" "xs ! length us = y" using xs by simp_all
  moreover have "\<not> P (xs ! j)" if "j < length us" for j
    using that us xs by (simp add: nth_append)
  ultimately show ?thesis using y by blast
qed

lemma parseName_cases:
  "(\<exists>i < length (splitLines T).
       parseName T = splitLines T ! i \<and> trim (splitLines T ! i) \<noteq> [] \<and>
       (\<forall>j < i. trim (splitLines T ! j) = []))
   \<or> ((\<forall>l \<in> set (splitLines T). trim l = []) \<and> parseName T = ''Unknown Name'')"
proof (cases "filter (\<lambda>line. trim line \<noteq> []) (splitLines T)")
  case Nil
  then have "\<forall>l \<in> set (splitLines T). trim l = []"
    by (simp add: filter_empty_conv)
  moreover from Nil have "parseName T = ''Unknown Name''"
    by (simp add: parseName_def)
  ultimately show ?thesis by blast
next
  case (Cons y ys)
  from filter_first [OF Cons] obtain i where i: "i < length (splitLines T)"
    and y: "splitLines T ! i = y" and t: "trim y \<noteq> []"
    and b: "\<forall>j < i. trim (splitLines T ! j) = []" by auto
  from t have "y \<noteq> []" by (auto simp: trim_def)
  with Cons have "parseName T = y" by (simp add: parseName_def)
  with i y t b show ?thesis by blast
qed

lemma parseName_derived: "parseName T = ''Unknown Name'' \<or> sublist (parseName T) T"
  using parseName_cases [of T] splitLines_sublist [of _ T] by (metis nth_mem)

lemma parseSkills_ok:
  "\<exists>ss. parseSkills T = Inr ss \<and> (\<forall>s \<in> set ss. s \<noteq> [] \<and> sublist s T) \<and>
        (regexExec flags_is (sectionPattern ''skills'') T = None \<longrightarrow> ss = [])"
proof (cases "regexExec flags_is (sectionPattern ''skills'') T")
  case None
  then show ?thesis by (simp add: parseSkills_def)
next
  case (Some a)
  obtain m c where a: "a = (m, c)" by (cases a)
  from regexExec_sound [OF Some [unfolded a]] obtain t s' where
    caps: "\<And>n g. c n = Some g \<Longrightarrow> sublist g T"
    and mem: "(s', c) \<in> set (rmatch flags_is (sectionPattern ''skills'') (t, Map.empty))"
    by blast
  from sectionPattern_captures [OF mem] obtain g where g: "c 1 = Some g" by blast
  have "sublist s T" if "s \<in> set (map trim (splitOn sep g))" for s sep
  proof -
    from that obtain p where p: "p \<in> set (splitOn sep g)" and s: "s = trim p" by auto
    have "sublist s p" unfolding s by (rule sublist_trim)
    moreover have "sublist p g" using p by (rule splitOn_sublist)
    moreover have "sublist g T" using g by (rule caps)
    ultimately show ?thesis by (blast intro: sublist_trans)
  qed
  with Some a g show ?thesis by (auto simp: parseSkills_def)
qed

lemma parseSummary_ok:
  "\<exists>x. parseSummary T = Inr x \<and> sublist x T \<and>
        (regexExec flags_is (sectionPattern ''summary'') T = None \<longrightarrow> x = [])"
proof (cases "regexExec flags_is (sectionPattern ''summary'') T")
  case None
  then show ?thesis by (simp add: parseSummary_def)
next
  case (Some a)
  obtain m c where a: "a = (m, c)" by (cases a)
  from regexExec_sound [OF Some [unfolded a]] obtain t s' where
    caps: "\<And>n g. c n = Some g \<Longrightarrow> sublist g T"
    and mem: "(s', c) \<in> set (rmatch flags_is (sectionPattern ''summary'') (t, Map.empty))"
    by blast
  from sectionPattern_captures [OF mem] obtain g where g: "c 1 = Some g" by blast
  have "sublist (trim g) g" by (rule sublist_trim)
  moreover have "sublist g T" using g by (rule caps)
  ultimately have "sublist (trim g) T" by (rule sublist_trans)
  with Some a g show ?thesis by (simp add: parseSummary_def)
qed

lemma parseEmail_ok:
  "sublist (parseEmail T) T \<and> (regexExec noFlags emailPattern T = None \<longrightarrow> parseEmail T = [])"
  by (cases "regexExec noFlags emailPattern T")
     (auto simp: parseEmail_def dest: regexExec_sound)

lemma parsePhone_ok:
  "sublist (parsePhone T) T \<and> (regexExec noFlags phonePattern T = None \<longrightarrow> parsePhone T = [])"
  by (cases "regexExec noFlags phonePattern T")
     (auto simp: parsePhone_def dest: regexExec_sound)

lemma parseResumeText_fields:
  "\<exists>r ss x. parseResumeText T = Inr r \<and> parseSkills T = Inr ss \<and> parseSummary T = Inr x \<and>
     ident r = None \<and> name r = parseName T \<and> email r = Some (parseEmail T) \<and>
     phone r = Some (parsePhone T) \<and> location r = None \<and> linkedin r = None \<and>
     website r = None \<and> summary r = Some x \<and> skills r = Some ss \<and>
     experience r = Some [] \<and> education r = Some [] \<and> certifications r = None \<and>
     projects r = None"
proof -
  from parseSkills_ok [of T] obtain ss where ss: "parseSkills T = Inr ss" by blast
  from parseSummary_ok [of T] obtain x where x: "parseSummary T = Inr x" by blast
  show ?thesis by (simp add: parseResumeText_def ss x)
qed

text \<open>Scenario A of the specification comes out as the specification says.\<close>

lemma scenarioA_extracted:
  "parseName scenarioA = ''Jane Doe''"
  "parseEmail scenarioA = ''jane@x.com''"
  "parsePhone scenarioA = ''555-123-4567''"
  "parseSkills scenarioA = Inr [''Go'', ''Rust'', ''C++'', ''Python'', ''SQL'']"
  by code_simp+

lemma parseSkills_twoLineSkills: "parseSkills twoLineSkills = Inr [''Python'', ''SQL'']"
  by code_simp

text \<open>
  Claim C5.  The capture of the skills section is meant to end at the next line that
  starts with a capital letter, but the flag i of the pattern makes \<open>[A-Z]\<close> accept small
  letters too: a skills list that goes on in a line starting with a small letter is cut
  at the end of its first line.
\<close>

theorem twoLineSkills_cut_at_small_letter:
  "\<exists>r. parseResumeText twoLineSkills = Inr r \<and> skills r = Some [''Python'', ''SQL'']"
proof -
  from parseResumeText_fields [of twoLineSkills] obtain r ss where
    r: "parseResumeText twoLineSkills = Inr r" and ss: "parseSkills twoLineSkills = Inr ss"
    and k: "skills r = Some ss" by blast
  from ss have "ss = [''Python'', ''SQL'']" by (simp add: parseSkills_twoLineSkills)
  with r k show ?thesis by blast
qed

text \<open>
  Claim C6.  For every text the extractor returns a record and raises no error.  The name
  is the placeholder or a piece of the text; e-mail address, phone number and summary are
  pieces of the text, and the empty string when their pattern finds nothing; every skill is
  a non-empty piece of the text, and there is none when the pattern finds nothing;
  experience and education are empty and the other properties are absent.
\<close>

theorem parseResumeText_never_fails:
  "\<exists>r. parseResumeText T = Inr r
     \<and> (name r = ''Unknown Name'' \<or> sublist (name r) T)
     \<and> (\<exists>e. email r = Some e \<and> sublist e T \<and>
            (regexExec noFlags emailPattern T = None \<longrightarrow> e = []))
     \<and> (\<exists>p. phone r = Some p \<and> sublist p T \<and>
            (regexExec noFlags phonePattern T = None \<longrightarrow> p = []))
     \<and> (\<exists>x. summary r = Some x \<and> sublist x T \<and>
            (regexExec flags_is (sectionPattern ''summary'') T = None \<longrightarrow> x = []))
     \<and> (\<exists>ss. skills r = Some ss \<and> (\<forall>s \<in> set ss. s \<noteq> [] \<and> sublist s T) \<and>
            (regexExec flags_is (sectionPattern ''skills'') T = None \<longrightarrow> ss = []))
     \<and> experience r = Some [] \<and> education r = Some []
     \<and> ident r = None \<and> location r = None \<and> linkedin r = None \<and> website r = None
     \<and> certifications r = None \<and> projects r = None"
proof -
  from parseResumeText_fields [of T] obtain r ss x where
    r: "parseResumeText T = Inr r" and ss: "parseSkills T = Inr ss" and x: "parseSummary T = Inr x"
    and f: "name r = parseName T" "email r = Some (parseEmail T)" "phone r = Some (parsePhone T)"
      "summary r = Some x" "skills r = Some ss"
    and rest: "experience r = Some []" "education r = Some []" "ident r = None"
      "location r = None" "linkedin r = None" "website r = None" "certifications r = None"
      "projects r = None"
    by blast
  have n: "name r = ''Unknown Name'' \<or> sublist (name r) T"
    unfolding f by (rule parseName_derived)
  have e: "\<exists>e. email r = Some e \<and> sublist e T \<and>
            (regexExec noFlags emailPattern T = None \<longrightarrow> e = [])"
    unfolding f using parseEmail_ok [of T] by simp
  have p: "\<exists>p. phone r = Some p \<and> sublist p T \<and>
            (regexExec noFlags phonePattern T = None \<longrightarrow> p = [])"
    unfolding f using parsePhone_ok [of T] by simp
  have s: "\<exists>x. summary r = Some x \<and> sublist x T \<and>
            (regexExec flags_is (sectionPattern ''summary'') T = None \<longrightarrow> x = [])"
    unfolding f using parseSummary_ok [of T] x by simp
  have k: "\<exists>ss. skills r = Some ss \<and> (\<forall>s \<in> set ss. s \<noteq> [] \<and> sublist s T) \<and>
            (regexExec flags_is (sectionPattern ''skills'') T = None \<longrightarrow> ss = [])"
    unfolding f using parseSkills_ok [of T] ss by simp
  show ?thesis
    apply (rule exI [of _ r])
    apply (intro conjI)
    apply (rule r n e p s k rest)+
    done
qed

lemma miss_email_Jane: "regexExec noFlags emailPattern justAName = None"
  by code_simp

lemma miss_phone_Jane: "regexExec noFlags phonePattern justAName = None"
  by code_simp

lemma miss_summary_Jane: "regexExec flags_is (sectionPattern ''summary'') justAName = None"
  by code_simp

lemma miss_skills_Jane: "regexExec flags_is (sectionPattern ''skills'') justAName = None"
  by code_simp

lemmas misses_Jane = miss_email_Jane miss_phone_Jane miss_summary_Jane miss_skills_Jane

theorem parseResumeText_never_fails_witness:
  "regexExec noFlags emailPattern justAName = None
   \<and> regexExec noFlags phonePattern justAName = None
   \<and> regexExec flags_is (sectionPattern ''summary'') justAName = None
   \<and> regexExec flags_is (sectionPattern ''skills'') justAName = None
   \<and> (\<exists>r. parseResumeText justAName = Inr r \<and> email r = Some [] \<and> phone r = Some []
          \<and> summary r = Some [] \<and> skills r = Some [])"
  using parseResumeText_never_fails [of justAName]
  by (elim exE conjE) (simp add: misses_Jane)

text \<open>
  Claim C9.  For every text the extracted record has an empty experience sequence, an empty
  education sequence and no certifications, so that its score is at most 50: rules 4, 6
  and 8 give their improvement and rule 5 gives no strength.
\<close>

theorem extractor_output_scores_at_most_50:
  "\<exists>r. parseResumeText T = Inr r
     \<and> experience r = Some [] \<and> education r = Some [] \<and> certifications r = None
     \<and> score (analyzeResume r) \<le> 50
     \<and> ''Include at least 2 relevant work experiences'' \<in> set (improvements (analyzeResume r))
     \<and> ''Experience includes quantifiable achievements'' \<notin> set (strengths (analyzeResume r))
     \<and> ''Add education details'' \<in> set (improvements (analyzeResume r))
     \<and> ''Consider adding relevant certifications or additional qualifications''
           \<in> set (improvements (analyzeResume r))"
proof -
  from parseResumeText_fields [of T] obtain r where r: "parseResumeText T = Inr r"
    and f: "experience r = Some []" "education r = Some []" "certifications r = None"
    by blast
  have sc: "score (analyzeResume r) \<le> 50"
    unfolding score_analyzeResume f by simp
  have i4: "''Include at least 2 relevant work experiences'' \<in> set (improvements (analyzeResume r))"
    unfolding improvements_analyzeResume f by simp
  have s5: "''Experience includes quantifiable achievements'' \<notin> set (strengths (analyzeResume r))"
    unfolding strengths_analyzeResume f by simp
  have i6: "''Add education details'' \<in> set (improvements (analyzeResume r))"
    unfolding improvements_analyzeResume f by simp
  have i8: "''Consider adding relevant certifications or additional qualifications''
           \<in> set (improvements (analyzeResume r))"
    unfolding improvements_analyzeResume f by simp
  show ?thesis
    apply (rule exI [of _ r])
    apply (intro conjI)
    apply (rule r f sc i4 s5 i6 i8)+
    done
qed

theorem extractor_output_scores_at_most_50_witness:
  "\<exists>r. parseResumeText scenarioA = Inr r
     \<and> experience r = Some [] \<and> education r = Some [] \<and> certifications r = None
     \<and> score (analyzeResume r) \<le> 50"
proof -
  from extractor_output_scores_at_most_50 [of scenarioA] obtain r where
    "parseResumeText scenarioA = Inr r" "experience r = Some []" "education r = Some []"
    "certifications r = None" "score (analyzeResume r) \<le> 50" by blast
  then show ?thesis by blast
qed

text \<open>
  Claim C10.  For every text the extracted name is not empty: it is the first line whose
  trimmed form is not empty, or \<open>Unknown Name\<close> when every line is blank.
\<close>

theorem extractor_name:
  "\<exists>r. parseResumeText T = Inr r \<and> name r \<noteq> [] \<and>
     ((\<exists>i < length (splitLines T).
          name r = splitLines T ! i \<and> trim (splitLines T ! i) \<noteq> [] \<and>
          (\<forall>j < i. trim (splitLines T ! j) = []))
      \<or> ((\<forall>l \<in> set (splitLines T). trim l = []) \<and> name r = ''Unknown Name''))"
proof -
  from parseResumeText_fields [of T] obtain r where r: "parseResumeText T = Inr r"
    and n: "name r = parseName T" by blast
  have "parseName T \<noteq> []" unfolding parseName_def Let_def by (rule firstOr_nonempty) simp
  then have ne: "name r \<noteq> []" unfolding n .
  from parseName_cases [of T] have c:
    "(\<exists>i < length (splitLines T).
          name r = splitLines T ! i \<and> trim (splitLines T ! i) \<noteq> [] \<and>
          (\<forall>j < i. trim (splitLines T ! j) = []))
      \<or> ((\<forall>l \<in> set (splitLines T). trim l = []) \<and> name r = ''Unknown Name'')"
    unfolding n .
  from r ne c show ?thesis by blast
qed

lemma splitLines_blankThenName:
  "splitLines blankThenName = [''  '', [], ''Jane Doe'', ''Engineer'']"
  by (simp add: blankThenName_def)

lemma trims_blankThenName:
  "trim ''  '' = []" "trim [] = []" "trim ''Jane Doe'' = ''Jane Doe''" "trim ''Engineer'' = ''Engineer''"
  by (simp_all add: trim_def isWhiteSpace_def)

theorem extractor_name_witness:
  "splitLines blankThenName = [''  '', [], ''Jane Doe'', ''Engineer'']
   \<and> (\<exists>r. parseResumeText blankThenName = Inr r \<and> name r = ''Jane Doe'')"
proof -
  from extractor_name [of blankThenName] obtain r where r: "parseResumeText blankThenName = Inr r"
    and c: "(\<exists>i < length (splitLines blankThenName).
          name r = splitLines blankThenName ! i \<and> trim (splitLines blankThenName ! i) \<noteq> [] \<and>
          (\<forall>j < i. trim (splitLines blankThenName ! j) = []))
      \<or> ((\<forall>l \<in> set (splitLines blankThenName). trim l = []) \<and> name r = ''Unknown Name'')"
    by blast
  from c have "name r = ''Jane Doe''"
  proof
    assume "\<exists>i < length (splitLines blankThenName).
          name r = splitLines blankThenName ! i \<and> trim (splitLines blankThenName ! i) \<noteq> [] \<and>
          (\<forall>j < i. trim (splitLines blankThenName ! j) = [])"
    then obtain i where i0: "i < length (splitLines blankThenName)"
      and n: "name r = splitLines blankThenName ! i"
      and t: "trim (splitLines blankThenName ! i) \<noteq> []"
      and b: "\<forall>j < i. trim (splitLines blankThenName ! j) = []"
      by blast
    from i0 have i: "i < 4" by (simp add: splitLines_blankThenName)
    from i consider "i = 0" | "i = 1" | "i = 2" | "i = 3" by linarith
    then show ?thesis
    proof cases
      case 1 with t show ?thesis by (simp add: splitLines_blankThenName trims_blankThenName)
    next
      case 2 with t show ?thesis by (simp add: splitLines_blankThenName trims_blankThenName)
    next
      case 3 with n show ?thesis by (simp add: splitLines_blankThenName)
    next
      case 4
      with b have "trim (splitLines blankThenName ! 2) = []" by simp
      then show ?thesis by (simp add: splitLines_blankThenName trims_blankThenName)
    qed
  next
    assume "(\<forall>l \<in> set (splitLines blankThenName). trim l = []) \<and> name r = ''Unknown Name''"
    then have "trim ''Jane Doe'' = []" by (simp add: splitLines_blankThenName)
    then show ?thesis by (simp add: trims_blankThenName)
  qed
  with r splitLines_blankThenName show ?thesis by blast
qed



section \<open>Properties of the store\<close>

lemma mapRows_effect:
  "mapRows en f k xs w = (rows, w') \<Longrightarrow>
     db w' = db w \<and> uuidCount w' = uuidCount w + length xs \<and>
     rows = map (\<lambda>j. f (uuid en (uuidCount w + j)) (k + j) (xs ! j)) [0 ..< length xs]"
proof (induction xs arbitrary: k w rows w')
  case Nil
  then show ?case by simp
next
  case (Cons x xs)
  let ?w1 = "w\<lparr>uuidCount := Suc (uuidCount w)\<rparr>"
  obtain rows1 w2 where m: "mapRows en f (Suc k) xs ?w1 = (rows1, w2)"
    by (cases "mapRows en f (Suc k) xs ?w1")
  from Cons.prems m have r: "rows = f (uuid en (uuidCount w)) k x # rows1" and w': "w' = w2"
    by (simp_all add: uuidv4_def)
  from Cons.IH [OF m] have d: "db w2 = db w" and c: "uuidCount w2 = Suc (uuidCount w) + length xs"
    and r1: "rows1 = map (\<lambda>j. f (uuid en (Suc (uuidCount w) + j)) (Suc k + j) (xs ! j)) [0 ..< length xs]"
    by simp_all
  have "map (\<lambda>j. f (uuid en (uuidCount w + j)) (k + j) ((x # xs) ! j)) [0 ..< length (x # xs)]
      = f (uuid en (uuidCount w)) k x
        # map (\<lambda>j. f (uuid en (uuidCount w + j)) (k + j) ((x # xs) ! j)) (map Suc [0 ..< length xs])"
    by (simp add: upt_conv_Cons map_Suc_upt del: upt_Suc)
  also have "\<dots> = rows" unfolding r r1 by (simp add: comp_def)
  finally have "rows = map (\<lambda>j. f (uuid en (uuidCount w + j)) (k + j) ((x # xs) ! j)) [0 ..< length (x # xs)]"
    by simp
  with d c w' show ?case by simp
qed

lemma saveExperiences_effect:
  assumes "saveExperiences en r i w = (e, w')"
  shows "e = (if atLeast_len (experience r) 1 then insertExperiences (faultsOf en) else None) \<and>
       resumes (db w') = resumes (db w) \<and>
       resume_education (db w') = resume_education (db w) \<and>
       resume_certifications (db w') = resume_certifications (db w) \<and>
       uuidCount w \<le> uuidCount w' \<and>
       resume_experiences (db w') =
         (if atLeast_len (experience r) 1
          then (if deleteExperiences (faultsOf en) = None then filter (\<lambda>row. x_resume_id row \<noteq> i) (resume_experiences (db w)) else resume_experiences (db w))
               @ (if insertExperiences (faultsOf en) = None
                  then map (\<lambda>j. \<lparr>x_id = uuid en (uuidCount w + j), x_resume_id = i,
              x_company = company (the (experience r) ! j),
              x_position = position (the (experience r) ! j),
              x_start_date = exp_startDate (the (experience r) ! j),
              x_end_date = exp_endDate (the (experience r) ! j),
              x_description = exp_description (the (experience r) ! j),
              x_order_index = j\<rparr>) [0 ..< length (the (experience r))]
                  else [])
          else resume_experiences (db w))"
proof (cases "atLeast_len (experience r) 1")
  case False
  with assms show ?thesis by (simp add: saveExperiences_def)
next
  case True
  let ?w1 = "case deleteExperiences (faultsOf en) of
               Some e \<Rightarrow> w
             | None \<Rightarrow> w\<lparr>db := (db w)\<lparr>resume_experiences :=
                 filter (\<lambda>row. x_resume_id row \<noteq> i) (resume_experiences (db w))\<rparr>\<rparr>"
  have c1: "uuidCount ?w1 = uuidCount w" by (simp split: option.splits)
  have t1: "resume_experiences (db ?w1) = (if deleteExperiences (faultsOf en) = None then filter (\<lambda>row. x_resume_id row \<noteq> i) (resume_experiences (db w)) else resume_experiences (db w))"
    by (simp split: option.splits)
  have o1: "resumes (db ?w1) = resumes (db w) \<and> resume_education (db ?w1) = resume_education (db w) \<and> resume_certifications (db ?w1) = resume_certifications (db w)"
    by (simp split: option.splits)
  obtain rows w2 where m: "mapRows en (\<lambda>i' index exp. \<lparr>x_id = i', x_resume_id = i, x_company = company exp,
                   x_position = position exp, x_start_date = exp_startDate exp,
                   x_end_date = exp_endDate exp, x_description = exp_description exp,
                   x_order_index = index\<rparr>) 0 (the (experience r)) ?w1 = (rows, w2)"
    by (cases "mapRows en (\<lambda>i' index exp. \<lparr>x_id = i', x_resume_id = i, x_company = company exp,
                   x_position = position exp, x_start_date = exp_startDate exp,
                   x_end_date = exp_endDate exp, x_description = exp_description exp,
                   x_order_index = index\<rparr>) 0 (the (experience r)) ?w1")
  from mapRows_effect [OF m] c1 have d2: "db w2 = db ?w1" and c2: "uuidCount w \<le> uuidCount w2"
    and r: "rows = map (\<lambda>j. \<lparr>x_id = uuid en (uuidCount w + j), x_resume_id = i,
              x_company = company (the (experience r) ! j),
              x_position = position (the (experience r) ! j),
              x_start_date = exp_startDate (the (experience r) ! j),
              x_end_date = exp_endDate (the (experience r) ! j),
              x_description = exp_description (the (experience r) ! j),
              x_order_index = j\<rparr>) [0 ..< length (the (experience r))]"
    by simp_all
  from assms True m have res: "(e, w') = (case insertExperiences (faultsOf en) of
        Some err \<Rightarrow> (Some err, w2)
      | None \<Rightarrow> (None, w2\<lparr>db := (db w2)\<lparr>resume_experiences := resume_experiences (db w2) @ rows\<rparr>\<rparr>))"
    by (simp add: saveExperiences_def Let_def)
  show ?thesis
  proof (cases "insertExperiences (faultsOf en)")
    case None
    with res have "e = None" "w' = w2\<lparr>db := (db w2)\<lparr>resume_experiences := resume_experiences (db w2) @ rows\<rparr>\<rparr>"
      by simp_all
    with None True d2 c2 t1 o1 r show ?thesis by simp
  next
    case (Some err)
    with res have "e = Some err" "w' = w2" by simp_all
    with Some True d2 c2 t1 o1 show ?thesis by simp
  qed
qed

lemma saveEducation_effect:
  assumes "saveEducation en r i w = (e, w')"
  shows "e = (if atLeast_len (education r) 1 then insertEducation (faultsOf en) else None) \<and>
       resumes (db w') = resumes (db w) \<and>
       resume_experiences (db w') = resume_experiences (db w) \<and>
       resume_certifications (db w') = resume_certifications (db w) \<and>
       uuidCount w \<le> uuidCount w' \<and>
       resume_education (db w') =
         (if atLeast_len (education r) 1
          then (if deleteEducation (faultsOf en) = None then filter (\<lambda>row. e_resume_id row \<noteq> i) (resume_education (db w)) else resume_education (db w))
               @ (if insertEducation (faultsOf en) = None
                  then map (\<lambda>j. \<lparr>e_id = uuid en (uuidCount w + j), e_resume_id = i,
              e_institution = institution (the (education r) ! j),
              e_degree = degree (the (education r) ! j),
              e_field_of_study = fieldOfStudy (the (education r) ! j),
              e_start_date = edu_startDate (the (education r) ! j),
              e_end_date = edu_endDate (the (education r) ! j),
              e_description = edu_description (the (education r) ! j),
              e_order_index = j\<rparr>) [0 ..< length (the (education r))]
                  else [])
          else resume_education (db w))"
proof (cases "atLeast_len (education r) 1")
  case False
  with assms show ?thesis by (simp add: saveEducation_def)
next
  case True
  let ?w1 = "case deleteEducation (faultsOf en) of
               Some e \<Rightarrow> w
             | None \<Rightarrow> w\<lparr>db := (db w)\<lparr>resume_education :=
                 filter (\<lambda>row. e_resume_id row \<noteq> i) (resume_education (db w))\<rparr>\<rparr>"
  have c1: "uuidCount ?w1 = uuidCount w" by (simp split: option.splits)
  have t1: "resume_education (db ?w1) = (if deleteEducation (faultsOf en) = None then filter (\<lambda>row. e_resume_id row \<noteq> i) (resume_education (db w)) else resume_education (db w))"
    by (simp split: option.splits)
  have o1: "resumes (db ?w1) = resumes (db w) \<and> resume_experiences (db ?w1) = resume_experiences (db w) \<and> resume_certifications (db ?w1) = resume_certifications (db w)"
    by (simp split: option.splits)
  obtain rows w2 where m: "mapRows en (\<lambda>i' index edu. \<lparr>e_id = i', e_resume_id = i, e_institution = institution edu,
                   e_degree = degree edu, e_field_of_study = fieldOfStudy edu,
                   e_start_date = edu_startDate edu, e_end_date = edu_endDate edu,
                   e_description = edu_description edu, e_order_index = index\<rparr>) 0 (the (education r)) ?w1 = (rows, w2)"
    by (cases "mapRows en (\<lambda>i' index edu. \<lparr>e_id = i', e_resume_id = i, e_institution = institution edu,
                   e_degree = degree edu, e_field_of_study = fieldOfStudy edu,
                   e_start_date = edu_startDate edu, e_end_date = edu_endDate edu,
                   e_description = edu_description edu, e_order_index = index\<rparr>) 0 (the (education r)) ?w1")
  from mapRows_effect [OF m] c1 have d2: "db w2 = db ?w1" and c2: "uuidCount w \<le> uuidCount w2"
    and r: "rows = map (\<lambda>j. \<lparr>e_id = uuid en (uuidCount w + j), e_resume_id = i,
              e_institution = institution (the (education r) ! j),
              e_degree = degree (the (education r) ! j),
              e_field_of_study = fieldOfStudy (the (education r) ! j),
              e_start_date = edu_startDate (the (education r) ! j),
              e_end_date = edu_endDate (the (education r) ! j),
              e_description = edu_description (the (education r) ! j),
              e_order_index = j\<rparr>) [0 ..< length (the (education r))]"
    by simp_all
  from assms True m have res: "(e, w') = (case insertEducation (faultsOf en) of
        Some err \<Rightarrow> (Some err, w2)
      | None \<Rightarrow> (None, w2\<lparr>db := (db w2)\<lparr>resume_education := resume_education (db w2) @ rows\<rparr>\<rparr>))"
    by (simp add: saveEducation_def Let_def)
  show ?thesis
  proof (cases "insertEducation (faultsOf en)")
    case None
    with res have "e = None" "w' = w2\<lparr>db := (db w2)\<lparr>resume_education := resume_education (db w2) @ rows\<rparr>\<rparr>"
      by simp_all
    with None True d2 c2 t1 o1 r show ?thesis by simp
  next
    case (Some err)
    with res have "e = Some err" "w' = w2" by simp_all
    with Some True d2 c2 t1 o1 show ?thesis by simp
  qed
qed

lemma saveCertifications_effect:
  assumes "saveCertifications en r i w = (e, w')"
  shows "e = (if atLeast_len (certifications r) 1 then insertCertifications (faultsOf en) else None) \<and>
       resumes (db w') = resumes (db w) \<and>
       resume_experiences (db w') = resume_experiences (db w) \<and>
       resume_education (db w') = resume_education (db w) \<and>
       uuidCount w \<le> uuidCount w' \<and>
       resume_certifications (db w') =
         (if atLeast_len (certifications r) 1
          then (if deleteCertifications (faultsOf en) = None then filter (\<lambda>row. c_resume_id row \<noteq> i) (resume_certifications (db w)) else resume_certifications (db w))
               @ (if insertCertifications (faultsOf en) = None
                  then map (\<lambda>j. \<lparr>c_id = uuid en (uuidCount w + j), c_resume_id = i,
              c_name = cert_name (the (certifications r) ! j),
              c_issuer = issuer (the (certifications r) ! j),
              c_date = date (the (certifications r) ! j),
              c_description = cert_description (the (certifications r) ! j),
              c_order_index = j\<rparr>) [0 ..< length (the (certifications r))]
                  else [])
          else resume_certifications (db w))"
proof (cases "atLeast_len (certifications r) 1")
  case False
  with assms show ?thesis by (simp add: saveCertifications_def)
next
  case True
  let ?w1 = "case deleteCertifications (faultsOf en) of
               Some e \<Rightarrow> w
             | None \<Rightarrow> w\<lparr>db := (db w)\<lparr>resume_certifications :=
                 filter (\<lambda>row. c_resume_id row \<noteq> i) (resume_certifications (db w))\<rparr>\<rparr>"
  have c1: "uuidCount ?w1 = uuidCount w" by (simp split: option.splits)
  have t1: "resume_certifications (db ?w1) = (if deleteCertifications (faultsOf en) = None then filter (\<lambda>row. c_resume_id row \<noteq> i) (resume_certifications (db w)) else resume_certifications (db w))"
    by (simp split: option.splits)
  have o1: "resumes (db ?w1) = resumes (db w) \<and> resume_experiences (db ?w1) = resume_experiences (db w) \<and> resume_education (db ?w1) = resume_education (db w)"
    by (simp split: option.splits)
  obtain rows w2 where m: "mapRows en (\<lambda>i' index cert. \<lparr>c_id = i', c_resume_id = i, c_name = cert_name cert,
                   c_issuer = issuer cert, c_date = date cert,
                   c_description = cert_description cert, c_order_index = index\<rparr>) 0 (the (certifications r)) ?w1 = (rows, w2)"
    by (cases "mapRows en (\<lambda>i' index cert. \<lparr>c_id = i', c_resume_id = i, c_name = cert_name cert,
                   c_issuer = issuer cert, c_date = date cert,
                   c_description = cert_description cert, c_order_index = index\<rparr>) 0 (the (certifications r)) ?w1")
  from mapRows_effect [OF m] c1 have d2: "db w2 = db ?w1" and c2: "uuidCount w \<le> uuidCount w2"
    and r: "rows = map (\<lambda>j. \<lparr>c_id = uuid en (uuidCount w + j), c_resume_id = i,
              c_name = cert_name (the (certifications r) ! j),
              c_issuer = issuer (the (certifications r) ! j),
              c_date = date (the (certifications r) ! j),
              c_description = cert_description (the (certifications r) ! j),
              c_order_index = j\<rparr>) [0 ..< length (the (certifications r))]"
    by simp_all
  from assms True m have res: "(e, w') = (case insertCertifications (faultsOf en) of
        Some err \<Rightarrow> (Some err, w2)
      | None \<Rightarrow> (None, w2\<lparr>db := (db w2)\<lparr>resume_certifications := resume_certifications (db w2) @ rows\<rparr>\<rparr>))"
    by (simp add: saveCertifications_def Let_def)
  show ?thesis
  proof (cases "insertCertifications (faultsOf en)")
    case None
    with res have "e = None" "w' = w2\<lparr>db := (db w2)\<lparr>resume_certifications := resume_certifications (db w2) @ rows\<rparr>\<rparr>"
      by simp_all
    with None True d2 c2 t1 o1 r show ?thesis by simp
  next
    case (Some err)
    with res have "e = Some err" "w' = w2" by simp_all
    with Some True d2 c2 t1 o1 show ?thesis by simp
  qed
qed

lemma chooseId_cases:
  "chooseId en r w = (if truthy (ident r) then (the (ident r), w)
                      else (uuid en (uuidCount w), w\<lparr>uuidCount := Suc (uuidCount w)\<rparr>))"
  by (simp add: chooseId_def uuidv4_def)

lemma chooseId_db: "db (snd (chooseId en r w)) = db w"
  by (simp add: chooseId_cases)

text \<open>
  What a run of \<open>saveResume\<close> returns and what it leaves in each table, for every choice of
  the failing calls.
\<close>

lemma saveResume_effect:
  assumes run: "saveResume en r w = (res, w')"
    and i: "i = (if truthy (ident r) then the (ident r) else uuid en (uuidCount w))"
  shows "res_error res = (case upsertResume (faultsOf en) of Some e \<Rightarrow> Some e
          | None \<Rightarrow> (case (if atLeast_len (experience r) 1 then insertExperiences (faultsOf en) else None) of Some e \<Rightarrow> Some e
          | None \<Rightarrow> (case (if atLeast_len (education r) 1 then insertEducation (faultsOf en) else None) of Some e \<Rightarrow> Some e
          | None \<Rightarrow> (if atLeast_len (certifications r) 1 then insertCertifications (faultsOf en) else None))))"
    and "res_id res = (if res_error res = None then i else [])"
    and "upsertResume (faultsOf en) \<noteq> None \<longrightarrow> db w' = db w"
    and "upsertResume (faultsOf en) = None \<longrightarrow> resumes (db w') = (resumes (db w))(i \<mapsto> \<lparr>r_id = i, r_name = name r, r_email = email r, r_phone = phone r,
              r_location = location r, r_linkedin = linkedin r, r_website = website r,
              r_summary = summary r, r_skills = skills r, r_created_at = now en\<rparr>)"
    and "\<exists>c. resume_experiences (db w') =
         (if upsertResume (faultsOf en) = None \<and> atLeast_len (experience r) 1
          then (if deleteExperiences (faultsOf en) = None then filter (\<lambda>row. x_resume_id row \<noteq> i) (resume_experiences (db w)) else resume_experiences (db w))
               @ (if insertExperiences (faultsOf en) = None
                  then map (\<lambda>j. \<lparr>x_id = uuid en (c + j), x_resume_id = i,
              x_company = company (the (experience r) ! j),
              x_position = position (the (experience r) ! j),
              x_start_date = exp_startDate (the (experience r) ! j),
              x_end_date = exp_endDate (the (experience r) ! j),
              x_description = exp_description (the (experience r) ! j),
              x_order_index = j\<rparr>) [0 ..< length (the (experience r))]
                  else [])
          else resume_experiences (db w))"
    and "\<exists>c. resume_education (db w') =
         (if upsertResume (faultsOf en) = None \<and> (if atLeast_len (experience r) 1 then insertExperiences (faultsOf en) else None) = None \<and> atLeast_len (education r) 1
          then (if deleteEducation (faultsOf en) = None then filter (\<lambda>row. e_resume_id row \<noteq> i) (resume_education (db w)) else resume_education (db w))
               @ (if insertEducation (faultsOf en) = None
                  then map (\<lambda>j. \<lparr>e_id = uuid en (c + j), e_resume_id = i,
              e_institution = institution (the (education r) ! j),
              e_degree = degree (the (education r) ! j),
              e_field_of_study = fieldOfStudy (the (education r) ! j),
              e_start_date = edu_startDate (the (education r) ! j),
              e_end_date = edu_endDate (the (education r) ! j),
              e_description = edu_description (the (education r) ! j),
              e_order_index = j\<rparr>) [0 ..< length (the (education r))]
                  else [])
          else resume_education (db w))"
    and "\<exists>c. resume_certifications (db w') =
         (if upsertResume (faultsOf en) = None \<and> (if atLeast_len (experience r) 1 then insertExperiences (faultsOf en) else None) = None \<and> (if atLeast_len (education r) 1 then insertEducation (faultsOf en) else None) = None
              \<and> atLeast_len (certifications r) 1
          then (if deleteCertifications (faultsOf en) = None then filter (\<lambda>row. c_resume_id row \<noteq> i) (resume_certifications (db w)) else resume_certifications (db w))
               @ (if insertCertifications (faultsOf en) = None
                  then map (\<lambda>j. \<lparr>c_id = uuid en (c + j), c_resume_id = i,
              c_name = cert_name (the (certifications r) ! j),
              c_issuer = issuer (the (certifications r) ! j),
              c_date = date (the (certifications r) ! j),
              c_description = cert_description (the (certifications r) ! j),
              c_order_index = j\<rparr>) [0 ..< length (the (certifications r))]
                  else [])
          else resume_certifications (db w))"
proof -
  have ci: "fst (chooseId en r w) = i" using i by (simp add: chooseId_cases)
  let ?w0 = "snd (chooseId en r w)"
  have d0: "db ?w0 = db w" by (rule chooseId_db)
  let ?w1 = "?w0\<lparr>db := (db ?w0)\<lparr>resumes := (resumes (db ?w0))(i \<mapsto> resumeData en r i)\<rparr>\<rparr>"
  have row: "resumeData en r i = \<lparr>r_id = i, r_name = name r, r_email = email r, r_phone = phone r,
              r_location = location r, r_linkedin = linkedin r, r_website = website r,
              r_summary = summary r, r_skills = skills r, r_created_at = now en\<rparr>" by (simp add: resumeData_def)
  have t1: "resumes (db ?w1) = (resumes (db w))(i \<mapsto> \<lparr>r_id = i, r_name = name r, r_email = email r, r_phone = phone r,
              r_location = location r, r_linkedin = linkedin r, r_website = website r,
              r_summary = summary r, r_skills = skills r, r_created_at = now en\<rparr>)"
    "resume_experiences (db ?w1) = resume_experiences (db w)"
    "resume_education (db ?w1) = resume_education (db w)"
    "resume_certifications (db ?w1) = resume_certifications (db w)"
    by (simp_all add: d0 row)
  obtain e2 w2 where s2: "saveExperiences en r i ?w1 = (e2, w2)"
    by (cases "saveExperiences en r i ?w1")
  obtain e3 w3 where s3: "saveEducation en r i w2 = (e3, w3)"
    by (cases "saveEducation en r i w2")
  obtain e4 w4 where s4: "saveCertifications en r i w3 = (e4, w4)"
    by (cases "saveCertifications en r i w3")
  note f2 = saveExperiences_effect [OF s2, unfolded t1]
  note f3 = saveEducation_effect [OF s3]
  note f4 = saveCertifications_effect [OF s4]
  from f2 have e2: "e2 = (if atLeast_len (experience r) 1 then insertExperiences (faultsOf en) else None)" by blast
  from f3 have e3: "e3 = (if atLeast_len (education r) 1 then insertEducation (faultsOf en) else None)" by blast
  from f4 have e4: "e4 = (if atLeast_len (certifications r) 1 then insertCertifications (faultsOf en) else None)" by blast
  have all: "res_error res = (case upsertResume (faultsOf en) of Some e \<Rightarrow> Some e
          | None \<Rightarrow> (case (if atLeast_len (experience r) 1 then insertExperiences (faultsOf en) else None) of Some e \<Rightarrow> Some e
          | None \<Rightarrow> (case (if atLeast_len (education r) 1 then insertEducation (faultsOf en) else None) of Some e \<Rightarrow> Some e
          | None \<Rightarrow> (if atLeast_len (certifications r) 1 then insertCertifications (faultsOf en) else None))))
     \<and> res_id res = (if res_error res = None then i else [])
     \<and> (upsertResume (faultsOf en) \<noteq> None \<longrightarrow> db w' = db w)
     \<and> (upsertResume (faultsOf en) = None \<longrightarrow> resumes (db w') = (resumes (db w))(i \<mapsto> \<lparr>r_id = i, r_name = name r, r_email = email r, r_phone = phone r,
              r_location = location r, r_linkedin = linkedin r, r_website = website r,
              r_summary = summary r, r_skills = skills r, r_created_at = now en\<rparr>))
     \<and> (\<exists>c. resume_experiences (db w') =
         (if upsertResume (faultsOf en) = None \<and> atLeast_len (experience r) 1
          then (if deleteExperiences (faultsOf en) = None then filter (\<lambda>row. x_resume_id row \<noteq> i) (resume_experiences (db w)) else resume_experiences (db w))
               @ (if insertExperiences (faultsOf en) = None
                  then map (\<lambda>j. \<lparr>x_id = uuid en (c + j), x_resume_id = i,
              x_company = company (the (experience r) ! j),
              x_position = position (the (experience r) ! j),
              x_start_date = exp_startDate (the (experience r) ! j),
              x_end_date = exp_endDate (the (experience r) ! j),
              x_description = exp_description (the (experience r) ! j),
              x_order_index = j\<rparr>) [0 ..< length (the (experience r))]
                  else [])
          else resume_experiences (db w)))
     \<and> (\<exists>c. resume_education (db w') =
         (if upsertResume (faultsOf en) = None \<and> (if atLeast_len (experience r) 1 then insertExperiences (faultsOf en) else None) = None \<and> atLeast_len (education r) 1
          then (if deleteEducation (faultsOf en) = None then filter (\<lambda>row. e_resume_id row \<noteq> i) (resume_education (db w)) else resume_education (db w))
               @ (if insertEducation (faultsOf en) = None
                  then map (\<lambda>j. \<lparr>e_id = uuid en (c + j), e_resume_id = i,
              e_institution = institution (the (education r) ! j),
              e_degree = degree (the (education r) ! j),
              e_field_of_study = fieldOfStudy (the (education r) ! j),
              e_start_date = edu_startDate (the (education r) ! j),
              e_end_date = edu_endDate (the (education r) ! j),
              e_description = edu_description (the (education r) ! j),
              e_order_index = j\<rparr>) [0 ..< length (the (education r))]
                  else [])
          else resume_education (db w)))
     \<and> (\<exists>c. resume_certifications (db w') =
         (if upsertResume (faultsOf en) = None \<and> (if atLeast_len (experience r) 1 then insertExperiences (faultsOf en) else None) = None \<and> (if atLeast_len (education r) 1 then insertEducation (faultsOf en) else None) = None
              \<and> atLeast_len (certifications r) 1
          then (if deleteCertifications (faultsOf en) = None then filter (\<lambda>row. c_resume_id row \<noteq> i) (resume_certifications (db w)) else resume_certifications (db w))
               @ (if insertCertifications (faultsOf en) = None
                  then map (\<lambda>j. \<lparr>c_id = uuid en (c + j), c_resume_id = i,
              c_name = cert_name (the (certifications r) ! j),
              c_issuer = issuer (the (certifications r) ! j),
              c_date = date (the (certifications r) ! j),
              c_description = cert_description (the (certifications r) ! j),
              c_order_index = j\<rparr>) [0 ..< length (the (certifications r))]
                  else [])
          else resume_certifications (db w)))"
  proof (cases "upsertResume (faultsOf en)")
    case (Some e)
    with run have "res = \<lparr>res_id = [], res_error = Some e\<rparr>" "w' = ?w0"
      by (auto simp: saveResume_def split: prod.splits)
    with Some d0 show ?thesis by simp
  next
    case None
    from run None s2 s3 s4 ci have rw:
      "(res, w') = (case e2 of Some e \<Rightarrow> (\<lparr>res_id = [], res_error = Some e\<rparr>, w2)
         | None \<Rightarrow> (case e3 of Some e \<Rightarrow> (\<lparr>res_id = [], res_error = Some e\<rparr>, w3)
             | None \<Rightarrow> (case e4 of Some e \<Rightarrow> (\<lparr>res_id = [], res_error = Some e\<rparr>, w4)
                 | None \<Rightarrow> (\<lparr>res_id = i, res_error = None\<rparr>, w4))))"
      by (simp add: saveResume_def Let_def split_beta split: option.splits)
    have x2: "resumes (db w2) = (resumes (db w))(i \<mapsto> \<lparr>r_id = i, r_name = name r, r_email = email r, r_phone = phone r,
              r_location = location r, r_linkedin = linkedin r, r_website = website r,
              r_summary = summary r, r_skills = skills r, r_created_at = now en\<rparr>)"
      "resume_education (db w2) = resume_education (db w)"
      "resume_certifications (db w2) = resume_certifications (db w)"
      using f2 by simp_all
    have g2: "resume_experiences (db w2) =
         (if upsertResume (faultsOf en) = None \<and> atLeast_len (experience r) 1
          then (if deleteExperiences (faultsOf en) = None then filter (\<lambda>row. x_resume_id row \<noteq> i) (resume_experiences (db w)) else resume_experiences (db w))
               @ (if insertExperiences (faultsOf en) = None
                  then map (\<lambda>j. \<lparr>x_id = uuid en (uuidCount ?w1 + j), x_resume_id = i,
              x_company = company (the (experience r) ! j),
              x_position = position (the (experience r) ! j),
              x_start_date = exp_startDate (the (experience r) ! j),
              x_end_date = exp_endDate (the (experience r) ! j),
              x_description = exp_description (the (experience r) ! j),
              x_order_index = j\<rparr>) [0 ..< length (the (experience r))]
                  else [])
          else resume_experiences (db w))"
      using f2 None by simp
    have x3: "resumes (db w3) = (resumes (db w))(i \<mapsto> \<lparr>r_id = i, r_name = name r, r_email = email r, r_phone = phone r,
              r_location = location r, r_linkedin = linkedin r, r_website = website r,
              r_summary = summary r, r_skills = skills r, r_created_at = now en\<rparr>)"
      "resume_experiences (db w3) = resume_experiences (db w2)"
      "resume_certifications (db w3) = resume_certifications (db w)"
      using f3 x2 by simp_all
    have x4: "resumes (db w4) = (resumes (db w))(i \<mapsto> \<lparr>r_id = i, r_name = name r, r_email = email r, r_phone = phone r,
              r_location = location r, r_linkedin = linkedin r, r_website = website r,
              r_summary = summary r, r_skills = skills r, r_created_at = now en\<rparr>)"
      "resume_experiences (db w4) = resume_experiences (db w2)"
      "resume_education (db w4) = resume_education (db w3)"
      using f4 x3 by simp_all
    show ?thesis
    proof (cases e2)
      case (Some err)
      with rw have r: "res = \<lparr>res_id = [], res_error = Some err\<rparr>" "w' = w2" by simp_all
      from Some e2 have ef: "(if atLeast_len (experience r) 1 then insertExperiences (faultsOf en) else None) = Some err" by simp
      have a: "res_error res = (case upsertResume (faultsOf en) of Some e \<Rightarrow> Some e
          | None \<Rightarrow> (case (if atLeast_len (experience r) 1 then insertExperiences (faultsOf en) else None) of Some e \<Rightarrow> Some e
          | None \<Rightarrow> (case (if atLeast_len (education r) 1 then insertEducation (faultsOf en) else None) of Some e \<Rightarrow> Some e
          | None \<Rightarrow> (if atLeast_len (certifications r) 1 then insertCertifications (faultsOf en) else None))))" using r None ef by simp
      have b: "res_id res = (if res_error res = None then i else [])" using r by simp
      have c: "resumes (db w') = (resumes (db w))(i \<mapsto> \<lparr>r_id = i, r_name = name r, r_email = email r, r_phone = phone r,
              r_location = location r, r_linkedin = linkedin r, r_website = website r,
              r_summary = summary r, r_skills = skills r, r_created_at = now en\<rparr>)" using r x2 by simp
      have d: "\<exists>c. resume_experiences (db w') =
         (if upsertResume (faultsOf en) = None \<and> atLeast_len (experience r) 1
          then (if deleteExperiences (faultsOf en) = None then filter (\<lambda>row. x_resume_id row \<noteq> i) (resume_experiences (db w)) else resume_experiences (db w))
               @ (if insertExperiences (faultsOf en) = None
                  then map (\<lambda>j. \<lparr>x_id = uuid en (c + j), x_resume_id = i,
              x_company = company (the (experience r) ! j),
              x_position = position (the (experience r) ! j),
              x_start_date = exp_startDate (the (experience r) ! j),
              x_end_date = exp_endDate (the (experience r) ! j),
              x_description = exp_description (the (experience r) ! j),
              x_order_index = j\<rparr>) [0 ..< length (the (experience r))]
                  else [])
          else resume_experiences (db w))" using g2 r(2) by blast
      have e: "\<exists>c. resume_education (db w') =
         (if upsertResume (faultsOf en) = None \<and> (if atLeast_len (experience r) 1 then insertExperiences (faultsOf en) else None) = None \<and> atLeast_len (education r) 1
          then (if deleteEducation (faultsOf en) = None then filter (\<lambda>row. e_resume_id row \<noteq> i) (resume_education (db w)) else resume_education (db w))
               @ (if insertEducation (faultsOf en) = None
                  then map (\<lambda>j. \<lparr>e_id = uuid en (c + j), e_resume_id = i,
              e_institution = institution (the (education r) ! j),
              e_degree = degree (the (education r) ! j),
              e_field_of_study = fieldOfStudy (the (education r) ! j),
              e_start_date = edu_startDate (the (education r) ! j),
              e_end_date = edu_endDate (the (education r) ! j),
              e_description = edu_description (the (education r) ! j),
              e_order_index = j\<rparr>) [0 ..< length (the (education r))]
                  else [])
          else resume_education (db w))" using r(2) x2 ef by simp
      have f: "\<exists>c. resume_certifications (db w') =
         (if upsertResume (faultsOf en) = None \<and> (if atLeast_len (experience r) 1 then insertExperiences (faultsOf en) else None) = None \<and> (if atLeast_len (education r) 1 then insertEducation (faultsOf en) else None) = None
              \<and> atLeast_len (certifications r) 1
          then (if deleteCertifications (faultsOf en) = None then filter (\<lambda>row. c_resume_id row \<noteq> i) (resume_certifications (db w)) else resume_certifications (db w))
               @ (if insertCertifications (faultsOf en) = None
                  then map (\<lambda>j. \<lparr>c_id = uuid en (c + j), c_resume_id = i,
              c_name = cert_name (the (certifications r) ! j),
              c_issuer = issuer (the (certifications r) ! j),
              c_date = date (the (certifications r) ! j),
              c_description = cert_description (the (certifications r) ! j),
              c_order_index = j\<rparr>) [0 ..< length (the (certifications r))]
                  else [])
          else resume_certifications (db w))" using r(2) x2 ef by simp
      from a b c d e f None show ?thesis by blast
    next
      case n2: None
      from n2 e2 have ef2: "(if atLeast_len (experience r) 1 then insertExperiences (faultsOf en) else None) = None" by simp
      have g3: "resume_education (db w3) =
         (if upsertResume (faultsOf en) = None \<and> (if atLeast_len (experience r) 1 then insertExperiences (faultsOf en) else None) = None \<and> atLeast_len (education r) 1
          then (if deleteEducation (faultsOf en) = None then filter (\<lambda>row. e_resume_id row \<noteq> i) (resume_education (db w)) else resume_education (db w))
               @ (if insertEducation (faultsOf en) = None
                  then map (\<lambda>j. \<lparr>e_id = uuid en (uuidCount w2 + j), e_resume_id = i,
              e_institution = institution (the (education r) ! j),
              e_degree = degree (the (education r) ! j),
              e_field_of_study = fieldOfStudy (the (education r) ! j),
              e_start_date = edu_startDate (the (education r) ! j),
              e_end_date = edu_endDate (the (education r) ! j),
              e_description = edu_description (the (education r) ! j),
              e_order_index = j\<rparr>) [0 ..< length (the (education r))]
                  else [])
          else resume_education (db w))"
        using f3 x2 None ef2 by simp
      show ?thesis
      proof (cases e3)
        case (Some err)
        with rw n2 have r: "res = \<lparr>res_id = [], res_error = Some err\<rparr>" "w' = w3" by simp_all
        from Some e3 have ef: "(if atLeast_len (education r) 1 then insertEducation (faultsOf en) else None) = Some err" by simp
        have a: "res_error res = (case upsertResume (faultsOf en) of Some e \<Rightarrow> Some e
          | None \<Rightarrow> (case (if atLeast_len (experience r) 1 then insertExperiences (faultsOf en) else None) of Some e \<Rightarrow> Some e
          | None \<Rightarrow> (case (if atLeast_len (education r) 1 then insertEducation (faultsOf en) else None) of Some e \<Rightarrow> Some e
          | None \<Rightarrow> (if atLeast_len (certifications r) 1 then insertCertifications (faultsOf en) else None))))" using r None ef2 ef by simp
        have b: "res_id res = (if res_error res = None then i else [])" using r by simp
        have c: "resumes (db w') = (resumes (db w))(i \<mapsto> \<lparr>r_id = i, r_name = name r, r_email = email r, r_phone = phone r,
              r_location = location r, r_linkedin = linkedin r, r_website = website r,
              r_summary = summary r, r_skills = skills r, r_created_at = now en\<rparr>)" using r x3 by simp
        have d: "\<exists>c. resume_experiences (db w') =
         (if upsertResume (faultsOf en) = None \<and> atLeast_len (experience r) 1
          then (if deleteExperiences (faultsOf en) = None then filter (\<lambda>row. x_resume_id row \<noteq> i) (resume_experiences (db w)) else resume_experiences (db w))
               @ (if insertExperiences (faultsOf en) = None
                  then map (\<lambda>j. \<lparr>x_id = uuid en (c + j), x_resume_id = i,
              x_company = company (the (experience r) ! j),
              x_position = position (the (experience r) ! j),
              x_start_date = exp_startDate (the (experience r) ! j),
              x_end_date = exp_endDate (the (experience r) ! j),
              x_description = exp_description (the (experience r) ! j),
              x_order_index = j\<rparr>) [0 ..< length (the (experience r))]
                  else [])
          else resume_experiences (db w))" using g2 r(2) x3 by auto
        have e: "\<exists>c. resume_education (db w') =
         (if upsertResume (faultsOf en) = None \<and> (if atLeast_len (experience r) 1 then insertExperiences (faultsOf en) else None) = None \<and> atLeast_len (education r) 1
          then (if deleteEducation (faultsOf en) = None then filter (\<lambda>row. e_resume_id row \<noteq> i) (resume_education (db w)) else resume_education (db w))
               @ (if insertEducation (faultsOf en) = None
                  then map (\<lambda>j. \<lparr>e_id = uuid en (c + j), e_resume_id = i,
              e_institution = institution (the (education r) ! j),
              e_degree = degree (the (education r) ! j),
              e_field_of_study = fieldOfStudy (the (education r) ! j),
              e_start_date = edu_startDate (the (education r) ! j),
              e_end_date = edu_endDate (the (education r) ! j),
              e_description = edu_description (the (education r) ! j),
              e_order_index = j\<rparr>) [0 ..< length (the (education r))]
                  else [])
          else resume_education (db w))" using g3 r(2) by blast
        have f: "\<exists>c. resume_certifications (db w') =
         (if upsertResume (faultsOf en) = None \<and> (if atLeast_len (experience r) 1 then insertExperiences (faultsOf en) else None) = None \<and> (if atLeast_len (education r) 1 then insertEducation (faultsOf en) else None) = None
              \<and> atLeast_len (certifications r) 1
          then (if deleteCertifications (faultsOf en) = None then filter (\<lambda>row. c_resume_id row \<noteq> i) (resume_certifications (db w)) else resume_certifications (db w))
               @ (if insertCertifications (faultsOf en) = None
                  then map (\<lambda>j. \<lparr>c_id = uuid en (c + j), c_resume_id = i,
              c_name = cert_name (the (certifications r) ! j),
              c_issuer = issuer (the (certifications r) ! j),
              c_date = date (the (certifications r) ! j),
              c_description = cert_description (the (certifications r) ! j),
              c_order_index = j\<rparr>) [0 ..< length (the (certifications r))]
                  else [])
          else resume_certifications (db w))" using r(2) x3 ef by simp
        from a b c d e f None show ?thesis by blast
      next
        case n3: None
        from n3 e3 have ef3: "(if atLeast_len (education r) 1 then insertEducation (faultsOf en) else None) = None" by simp
        have g4: "resume_certifications (db w4) =
         (if upsertResume (faultsOf en) = None \<and> (if atLeast_len (experience r) 1 then insertExperiences (faultsOf en) else None) = None \<and> (if atLeast_len (education r) 1 then insertEducation (faultsOf en) else None) = None
              \<and> atLeast_len (certifications r) 1
          then (if deleteCertifications (faultsOf en) = None then filter (\<lambda>row. c_resume_id row \<noteq> i) (resume_certifications (db w)) else resume_certifications (db w))
               @ (if insertCertifications (faultsOf en) = None
                  then map (\<lambda>j. \<lparr>c_id = uuid en (uuidCount w3 + j), c_resume_id = i,
              c_name = cert_name (the (certifications r) ! j),
              c_issuer = issuer (the (certifications r) ! j),
              c_date = date (the (certifications r) ! j),
              c_description = cert_description (the (certifications r) ! j),
              c_order_index = j\<rparr>) [0 ..< length (the (certifications r))]
                  else [])
          else resume_certifications (db w))"
          using f4 x3 None ef2 ef3 by simp
        from rw n2 n3 have r: "res_error res = e4" "res_id res = (if e4 = None then i else [])"
          "w' = w4" by (cases e4; simp)+
        have a: "res_error res = (case upsertResume (faultsOf en) of Some e \<Rightarrow> Some e
          | None \<Rightarrow> (case (if atLeast_len (experience r) 1 then insertExperiences (faultsOf en) else None) of Some e \<Rightarrow> Some e
          | None \<Rightarrow> (case (if atLeast_len (education r) 1 then insertEducation (faultsOf en) else None) of Some e \<Rightarrow> Some e
          | None \<Rightarrow> (if atLeast_len (certifications r) 1 then insertCertifications (faultsOf en) else None))))" using r None ef2 ef3 e4 by simp
        have b: "res_id res = (if res_error res = None then i else [])" using r by simp
        have c: "resumes (db w') = (resumes (db w))(i \<mapsto> \<lparr>r_id = i, r_name = name r, r_email = email r, r_phone = phone r,
              r_location = location r, r_linkedin = linkedin r, r_website = website r,
              r_summary = summary r, r_skills = skills r, r_created_at = now en\<rparr>)" using r x4 by simp
        have d: "\<exists>c. resume_experiences (db w') =
         (if upsertResume (faultsOf en) = None \<and> atLeast_len (experience r) 1
          then (if deleteExperiences (faultsOf en) = None then filter (\<lambda>row. x_resume_id row \<noteq> i) (resume_experiences (db w)) else resume_experiences (db w))
               @ (if insertExperiences (faultsOf en) = None
                  then map (\<lambda>j. \<lparr>x_id = uuid en (c + j), x_resume_id = i,
              x_company = company (the (experience r) ! j),
              x_position = position (the (experience r) ! j),
              x_start_date = exp_startDate (the (experience r) ! j),
              x_end_date = exp_endDate (the (experience r) ! j),
              x_description = exp_description (the (experience r) ! j),
              x_order_index = j\<rparr>) [0 ..< length (the (experience r))]
                  else [])
          else resume_experiences (db w))" using g2 r(3) x4 by auto
        have e: "\<exists>c. resume_education (db w') =
         (if upsertResume (faultsOf en) = None \<and> (if atLeast_len (experience r) 1 then insertExperiences (faultsOf en) else None) = None \<and> atLeast_len (education r) 1
          then (if deleteEducation (faultsOf en) = None then filter (\<lambda>row. e_resume_id row \<noteq> i) (resume_education (db w)) else resume_education (db w))
               @ (if insertEducation (faultsOf en) = None
                  then map (\<lambda>j. \<lparr>e_id = uuid en (c + j), e_resume_id = i,
              e_institution = institution (the (education r) ! j),
              e_degree = degree (the (education r) ! j),
              e_field_of_study = fieldOfStudy (the (education r) ! j),
              e_start_date = edu_startDate (the (education r) ! j),
              e_end_date = edu_endDate (the (education r) ! j),
              e_description = edu_description (the (education r) ! j),
              e_order_index = j\<rparr>) [0 ..< length (the (education r))]
                  else [])
          else resume_education (db w))" using g3 r(3) x4 by auto
        have f: "\<exists>c. resume_certifications (db w') =
         (if upsertResume (faultsOf en) = None \<and> (if atLeast_len (experience r) 1 then insertExperiences (faultsOf en) else None) = None \<and> (if atLeast_len (education r) 1 then insertEducation (faultsOf en) else None) = None
              \<and> atLeast_len (certifications r) 1
          then (if deleteCertifications (faultsOf en) = None then filter (\<lambda>row. c_resume_id row \<noteq> i) (resume_certifications (db w)) else resume_certifications (db w))
               @ (if insertCertifications (faultsOf en) = None
                  then map (\<lambda>j. \<lparr>c_id = uuid en (c + j), c_resume_id = i,
              c_name = cert_name (the (certifications r) ! j),
              c_issuer = issuer (the (certifications r) ! j),
              c_date = date (the (certifications r) ! j),
              c_description = cert_description (the (certifications r) ! j),
              c_order_index = j\<rparr>) [0 ..< length (the (certifications r))]
                  else [])
          else resume_certifications (db w))" using g4 r(3) by blast
        from a b c d e f None show ?thesis by blast
      qed
    qed
  qed
  from all show "res_error res = (case upsertResume (faultsOf en) of Some e \<Rightarrow> Some e
          | None \<Rightarrow> (case (if atLeast_len (experience r) 1 then insertExperiences (faultsOf en) else None) of Some e \<Rightarrow> Some e
          | None \<Rightarrow> (case (if atLeast_len (education r) 1 then insertEducation (faultsOf en) else None) of Some e \<Rightarrow> Some e
          | None \<Rightarrow> (if atLeast_len (certifications r) 1 then insertCertifications (faultsOf en) else None))))" by blast
  from all show "res_id res = (if res_error res = None then i else [])" by blast
  from all show "upsertResume (faultsOf en) \<noteq> None \<longrightarrow> db w' = db w" by blast
  from all show "upsertResume (faultsOf en) = None \<longrightarrow> resumes (db w') = (resumes (db w))(i \<mapsto> \<lparr>r_id = i, r_name = name r, r_email = email r, r_phone = phone r,
              r_location = location r, r_linkedin = linkedin r, r_website = website r,
              r_summary = summary r, r_skills = skills r, r_created_at = now en\<rparr>)" by blast
  from all show "\<exists>c. resume_experiences (db w') =
         (if upsertResume (faultsOf en) = None \<and> atLeast_len (experience r) 1
          then (if deleteExperiences (faultsOf en) = None then filter (\<lambda>row. x_resume_id row \<noteq> i) (resume_experiences (db w)) else resume_experiences (db w))
               @ (if insertExperiences (faultsOf en) = None
                  then map (\<lambda>j. \<lparr>x_id = uuid en (c + j), x_resume_id = i,
              x_company = company (the (experience r) ! j),
              x_position = position (the (experience r) ! j),
              x_start_date = exp_startDate (the (experience r) ! j),
              x_end_date = exp_endDate (the (experience r) ! j),
              x_description = exp_description (the (experience r) ! j),
              x_order_index = j\<rparr>) [0 ..< length (the (experience r))]
                  else [])
          else resume_experiences (db w))" by blast
  from all show "\<exists>c. resume_education (db w') =
         (if upsertResume (faultsOf en) = None \<and> (if atLeast_len (experience r) 1 then insertExperiences (faultsOf en) else None) = None \<and> atLeast_len (education r) 1
          then (if deleteEducation (faultsOf en) = None then filter (\<lambda>row. e_resume_id row \<noteq> i) (resume_education (db w)) else resume_education (db w))
               @ (if insertEducation (faultsOf en) = None
                  then map (\<lambda>j. \<lparr>e_id = uuid en (c + j), e_resume_id = i,
              e_institution = institution (the (education r) ! j),
              e_degree = degree (the (education r) ! j),
              e_field_of_study = fieldOfStudy (the (education r) ! j),
              e_start_date = edu_startDate (the (education r) ! j),
              e_end_date = edu_endDate (the (education r) ! j),
              e_description = edu_description (the (education r) ! j),
              e_order_index = j\<rparr>) [0 ..< length (the (education r))]
                  else [])
          else resume_education (db w))" by blast
  from all show "\<exists>c. resume_certifications (db w') =
         (if upsertResume (faultsOf en) = None \<and> (if atLeast_len (experience r) 1 then insertExperiences (faultsOf en) else None) = None \<and> (if atLeast_len (education r) 1 then insertEducation (faultsOf en) else None) = None
              \<and> atLeast_len (certifications r) 1
          then (if deleteCertifications (faultsOf en) = None then filter (\<lambda>row. c_resume_id row \<noteq> i) (resume_certifications (db w)) else resume_certifications (db w))
               @ (if insertCertifications (faultsOf en) = None
                  then map (\<lambda>j. \<lparr>c_id = uuid en (c + j), c_resume_id = i,
              c_name = cert_name (the (certifications r) ! j),
              c_issuer = issuer (the (certifications r) ! j),
              c_date = date (the (certifications r) ! j),
              c_description = cert_description (the (certifications r) ! j),
              c_order_index = j\<rparr>) [0 ..< length (the (certifications r))]
                  else [])
          else resume_certifications (db w))" by blast
qed

lemma handleResumeBuilt_resume:
  assumes "saveResume en r w = (res, w')"
  shows "resume (fst (handleResumeBuilt en r (app, w))) =
           (if res_error res = None then Some (r\<lparr>ident := Some (res_id res)\<rparr>) else resume app)"
    and "saveError (fst (handleResumeBuilt en r (app, w))) =
           (if res_error res = None then None
            else Some ''Failed to save resume. Please try again.'')"
  using assms by (auto simp: handleResumeBuilt_def Let_def split: option.splits)

lemma onSubmit_ident:
  "truthy (ident r0) \<Longrightarrow> ident (onSubmit (Some r0) d) = ident r0"
  by (simp add: onSubmit_def Let_def)

lemma first_fault_None:
  assumes "(case upsertResume (faultsOf en) of Some e \<Rightarrow> Some e
          | None \<Rightarrow> (case (if atLeast_len (experience r) 1 then insertExperiences (faultsOf en) else None) of Some e \<Rightarrow> Some e
          | None \<Rightarrow> (case (if atLeast_len (education r) 1 then insertEducation (faultsOf en) else None) of Some e \<Rightarrow> Some e
          | None \<Rightarrow> (if atLeast_len (certifications r) 1 then insertCertifications (faultsOf en) else None)))) = None"
  shows "upsertResume (faultsOf en) = None" "(if atLeast_len (experience r) 1 then insertExperiences (faultsOf en) else None) = None" "(if atLeast_len (education r) 1 then insertEducation (faultsOf en) else None) = None" "(if atLeast_len (certifications r) 1 then insertCertifications (faultsOf en) else None) = None"
  using assms by (auto split: option.splits if_splits)

text \<open>
  Claim C7, as amended.  Let \<open>i\<close> be the identifier of the record when it has one (a
  string that is not empty), and the next one that \<open>uuidv4\<close> yields when it has none.  A
  save that succeeds returns \<open>i\<close>, a save that fails returns the empty identifier.  As
  soon as the upsert succeeds the row of the record stands under \<open>i\<close>, with the fields
  of the record, also when a later insert fails the save; no other key of the table
  changes.  After a save that succeeds each child table holds, for every sequence that
  is not empty, the rows left by the delete followed by one row for each entry, in order,
  with \<open>resume_id\<close> \<open>i\<close>.  The builder form hands on the identifier of the record being
  edited, and the caller puts \<open>i\<close> into its record only when the save succeeds.
\<close>

theorem saveResume_keeps_identifier:
  assumes run: "saveResume en r w = (res, w')"
    and i: "i = (if truthy (ident r) then the (ident r) else uuid en (uuidCount w))"
  shows "(res_error res = None \<longrightarrow> res_id res = i)
       \<and> (res_error res \<noteq> None \<longrightarrow> res_id res = [])
       \<and> (upsertResume (faultsOf en) = None \<longrightarrow>
            resumes (db w') = (resumes (db w))(i \<mapsto> \<lparr>r_id = i, r_name = name r, r_email = email r, r_phone = phone r,
              r_location = location r, r_linkedin = linkedin r, r_website = website r,
              r_summary = summary r, r_skills = skills r, r_created_at = now en\<rparr>))
       \<and> (upsertResume (faultsOf en) \<noteq> None \<longrightarrow> db w' = db w)
       \<and> (\<forall>k. k \<noteq> i \<longrightarrow> resumes (db w') k = resumes (db w) k)
       \<and> (res_error res = None \<longrightarrow>
            (\<exists>c. resume_experiences (db w') =
         (if atLeast_len (experience r) 1
          then (if deleteExperiences (faultsOf en) = None then filter (\<lambda>row. x_resume_id row \<noteq> i) (resume_experiences (db w)) else resume_experiences (db w))
               @ map (\<lambda>j. \<lparr>x_id = uuid en (c + j), x_resume_id = i,
              x_company = company (the (experience r) ! j),
              x_position = position (the (experience r) ! j),
              x_start_date = exp_startDate (the (experience r) ! j),
              x_end_date = exp_endDate (the (experience r) ! j),
              x_description = exp_description (the (experience r) ! j),
              x_order_index = j\<rparr>) [0 ..< length (the (experience r))]
          else resume_experiences (db w)))
          \<and> (\<exists>c. resume_education (db w') =
         (if atLeast_len (education r) 1
          then (if deleteEducation (faultsOf en) = None then filter (\<lambda>row. e_resume_id row \<noteq> i) (resume_education (db w)) else resume_education (db w))
               @ map (\<lambda>j. \<lparr>e_id = uuid en (c + j), e_resume_id = i,
              e_institution = institution (the (education r) ! j),
              e_degree = degree (the (education r) ! j),
              e_field_of_study = fieldOfStudy (the (education r) ! j),
              e_start_date = edu_startDate (the (education r) ! j),
              e_end_date = edu_endDate (the (education r) ! j),
              e_description = edu_description (the (education r) ! j),
              e_order_index = j\<rparr>) [0 ..< length (the (education r))]
          else resume_education (db w)))
          \<and> (\<exists>c. resume_certifications (db w') =
         (if atLeast_len (certifications r) 1
          then (if deleteCertifications (faultsOf en) = None then filter (\<lambda>row. c_resume_id row \<noteq> i) (resume_certifications (db w)) else resume_certifications (db w))
               @ map (\<lambda>j. \<lparr>c_id = uuid en (c + j), c_resume_id = i,
              c_name = cert_name (the (certifications r) ! j),
              c_issuer = issuer (the (certifications r) ! j),
              c_date = date (the (certifications r) ! j),
              c_description = cert_description (the (certifications r) ! j),
              c_order_index = j\<rparr>) [0 ..< length (the (certifications r))]
          else resume_certifications (db w))))
       \<and> (truthy (ident r0) \<longrightarrow> ident (onSubmit (Some r0) d) = ident r0)
       \<and> resume (fst (handleResumeBuilt en r (app, w))) =
           (if res_error res = None then Some (r\<lparr>ident := Some i\<rparr>) else resume app)"
proof -
  note e = saveResume_effect [OF run i]
  have a: "res_error res = None \<longrightarrow> res_id res = i" using e(2) by simp
  have b: "res_error res \<noteq> None \<longrightarrow> res_id res = []" using e(2) by simp
  note c = e(4)
  note d = e(3)
  have k: "\<forall>k. k \<noteq> i \<longrightarrow> resumes (db w') k = resumes (db w) k"
  proof (cases "upsertResume (faultsOf en)")
    case None
    with e(4) show ?thesis by simp
  next
    case (Some err)
    with e(3) show ?thesis by simp
  qed
  have t: "res_error res = None \<longrightarrow>
            (\<exists>c. resume_experiences (db w') =
         (if atLeast_len (experience r) 1
          then (if deleteExperiences (faultsOf en) = None then filter (\<lambda>row. x_resume_id row \<noteq> i) (resume_experiences (db w)) else resume_experiences (db w))
               @ map (\<lambda>j. \<lparr>x_id = uuid en (c + j), x_resume_id = i,
              x_company = company (the (experience r) ! j),
              x_position = position (the (experience r) ! j),
              x_start_date = exp_startDate (the (experience r) ! j),
              x_end_date = exp_endDate (the (experience r) ! j),
              x_description = exp_description (the (experience r) ! j),
              x_order_index = j\<rparr>) [0 ..< length (the (experience r))]
          else resume_experiences (db w)))
          \<and> (\<exists>c. resume_education (db w') =
         (if atLeast_len (education r) 1
          then (if deleteEducation (faultsOf en) = None then filter (\<lambda>row. e_resume_id row \<noteq> i) (resume_education (db w)) else resume_education (db w))
               @ map (\<lambda>j. \<lparr>e_id = uuid en (c + j), e_resume_id = i,
              e_institution = institution (the (education r) ! j),
              e_degree = degree (the (education r) ! j),
              e_field_of_study = fieldOfStudy (the (education r) ! j),
              e_start_date = edu_startDate (the (education r) ! j),
              e_end_date = edu_endDate (the (education r) ! j),
              e_description = edu_description (the (education r) ! j),
              e_order_index = j\<rparr>) [0 ..< length (the (education r))]
          else resume_education (db w)))
          \<and> (\<exists>c. resume_certifications (db w') =
         (if atLeast_len (certifications r) 1
          then (if deleteCertifications (faultsOf en) = None then filter (\<lambda>row. c_resume_id row \<noteq> i) (resume_certifications (db w)) else resume_certifications (db w))
               @ map (\<lambda>j. \<lparr>c_id = uuid en (c + j), c_resume_id = i,
              c_name = cert_name (the (certifications r) ! j),
              c_issuer = issuer (the (certifications r) ! j),
              c_date = date (the (certifications r) ! j),
              c_description = cert_description (the (certifications r) ! j),
              c_order_index = j\<rparr>) [0 ..< length (the (certifications r))]
          else resume_certifications (db w)))"
  proof
    assume "res_error res = None"
    with e(1) have "(case upsertResume (faultsOf en) of Some e \<Rightarrow> Some e
          | None \<Rightarrow> (case (if atLeast_len (experience r) 1 then insertExperiences (faultsOf en) else None) of Some e \<Rightarrow> Some e
          | None \<Rightarrow> (case (if atLeast_len (education r) 1 then insertEducation (faultsOf en) else None) of Some e \<Rightarrow> Some e
          | None \<Rightarrow> (if atLeast_len (certifications r) 1 then insertCertifications (faultsOf en) else None)))) = None" by simp
    note n = first_fault_None [OF this]
    from e(5) n have x: "\<exists>c. resume_experiences (db w') =
         (if atLeast_len (experience r) 1
          then (if deleteExperiences (faultsOf en) = None then filter (\<lambda>row. x_resume_id row \<noteq> i) (resume_experiences (db w)) else resume_experiences (db w))
               @ map (\<lambda>j. \<lparr>x_id = uuid en (c + j), x_resume_id = i,
              x_company = company (the (experience r) ! j),
              x_position = position (the (experience r) ! j),
              x_start_date = exp_startDate (the (experience r) ! j),
              x_end_date = exp_endDate (the (experience r) ! j),
              x_description = exp_description (the (experience r) ! j),
              x_order_index = j\<rparr>) [0 ..< length (the (experience r))]
          else resume_experiences (db w))"
      by (cases "atLeast_len (experience r) 1") simp_all
    from e(6) n have y: "\<exists>c. resume_education (db w') =
         (if atLeast_len (education r) 1
          then (if deleteEducation (faultsOf en) = None then filter (\<lambda>row. e_resume_id row \<noteq> i) (resume_education (db w)) else resume_education (db w))
               @ map (\<lambda>j. \<lparr>e_id = uuid en (c + j), e_resume_id = i,
              e_institution = institution (the (education r) ! j),
              e_degree = degree (the (education r) ! j),
              e_field_of_study = fieldOfStudy (the (education r) ! j),
              e_start_date = edu_startDate (the (education r) ! j),
              e_end_date = edu_endDate (the (education r) ! j),
              e_description = edu_description (the (education r) ! j),
              e_order_index = j\<rparr>) [0 ..< length (the (education r))]
          else resume_education (db w))"
      by (cases "atLeast_len (education r) 1") simp_all
    from e(7) n have z: "\<exists>c. resume_certifications (db w') =
         (if atLeast_len (certifications r) 1
          then (if deleteCertifications (faultsOf en) = None then filter (\<lambda>row. c_resume_id row \<noteq> i) (resume_certifications (db w)) else resume_certifications (db w))
               @ map (\<lambda>j. \<lparr>c_id = uuid en (c + j), c_resume_id = i,
              c_name = cert_name (the (certifications r) ! j),
              c_issuer = issuer (the (certifications r) ! j),
              c_date = date (the (certifications r) ! j),
              c_description = cert_description (the (certifications r) ! j),
              c_order_index = j\<rparr>) [0 ..< length (the (certifications r))]
          else resume_certifications (db w))"
      by (cases "atLeast_len (certifications r) 1") simp_all
    from x y z show "(\<exists>c. resume_experiences (db w') =
         (if atLeast_len (experience r) 1
          then (if deleteExperiences (faultsOf en) = None then filter (\<lambda>row. x_resume_id row \<noteq> i) (resume_experiences (db w)) else resume_experiences (db w))
               @ map (\<lambda>j. \<lparr>x_id = uuid en (c + j), x_resume_id = i,
              x_company = company (the (experience r) ! j),
              x_position = position (the (experience r) ! j),
              x_start_date = exp_startDate (the (experience r) ! j),
              x_end_date = exp_endDate (the (experience r) ! j),
              x_description = exp_description (the (experience r) ! j),
              x_order_index = j\<rparr>) [0 ..< length (the (experience r))]
          else resume_experiences (db w)))
          \<and> (\<exists>c. resume_education (db w') =
         (if atLeast_len (education r) 1
          then (if deleteEducation (faultsOf en) = None then filter (\<lambda>row. e_resume_id row \<noteq> i) (resume_education (db w)) else resume_education (db w))
               @ map (\<lambda>j. \<lparr>e_id = uuid en (c + j), e_resume_id = i,
              e_institution = institution (the (education r) ! j),
              e_degree = degree (the (education r) ! j),
              e_field_of_study = fieldOfStudy (the (education r) ! j),
              e_start_date = edu_startDate (the (education r) ! j),
              e_end_date = edu_endDate (the (education r) ! j),
              e_description = edu_description (the (education r) ! j),
              e_order_index = j\<rparr>) [0 ..< length (the (education r))]
          else resume_education (db w)))
          \<and> (\<exists>c. resume_certifications (db w') =
         (if atLeast_len (certifications r) 1
          then (if deleteCertifications (faultsOf en) = None then filter (\<lambda>row. c_resume_id row \<noteq> i) (resume_certifications (db w)) else resume_certifications (db w))
               @ map (\<lambda>j. \<lparr>c_id = uuid en (c + j), c_resume_id = i,
              c_name = cert_name (the (certifications r) ! j),
              c_issuer = issuer (the (certifications r) ! j),
              c_date = date (the (certifications r) ! j),
              c_description = cert_description (the (certifications r) ! j),
              c_order_index = j\<rparr>) [0 ..< length (the (certifications r))]
          else resume_certifications (db w)))" by (intro conjI)
  qed
  have o: "truthy (ident r0) \<longrightarrow> ident (onSubmit (Some r0) d) = ident r0"
    by (simp add: onSubmit_ident)
  have h: "resume (fst (handleResumeBuilt en r (app, w))) =
           (if res_error res = None then Some (r\<lparr>ident := Some i\<rparr>) else resume app)"
    using handleResumeBuilt_resume(1) [OF run, of app] a by simp
  show ?thesis
    apply (intro conjI)
    apply (rule a b c d k t o h)+
    done
qed

lemma save_savedBefore:
  "saveResume (sampleEnv noFaults) savedBefore emptyWorld =
     (\<lparr>res_id = ''id-1'', res_error = None\<rparr>,
      emptyWorld\<lparr>db := (db emptyWorld)\<lparr>resumes :=
        [''id-1'' \<mapsto> resumeData (sampleEnv noFaults) savedBefore ''id-1'']\<rparr>\<rparr>)"
  by (simp add: saveResume_def chooseId_def savedBefore_def bareResume_def sampleEnv_def
      noFaults_def emptyWorld_def saveExperiences_def saveEducation_def saveCertifications_def)

lemma save_oneJob_error:
  "res_error (fst (saveResume (sampleEnv noFaults) oneJob emptyWorld)) = None"
  by (simp add: saveResume_def chooseId_def uuidv4_def oneJob_def bareResume_def sampleEnv_def
      noFaults_def emptyWorld_def saveExperiences_def saveEducation_def saveCertifications_def
      Let_def)

lemma save_insertFails:
  "saveResume (sampleEnv insertFails) oneJob emptyWorld =
     (\<lparr>res_id = [], res_error = Some (StoreError ''insert failed'')\<rparr>,
      \<lparr>db = \<lparr>resumes = [''u'' \<mapsto> resumeData (sampleEnv insertFails) oneJob ''u''],
               resume_experiences = [], resume_education = [], resume_certifications = []\<rparr>,
       uuidCount = 2\<rparr>)"
  by (simp add: saveResume_def chooseId_def uuidv4_def oneJob_def bareResume_def sampleEnv_def
      insertFails_def noFaults_def emptyWorld_def saveExperiences_def Let_def)

theorem saveResume_keeps_identifier_witness:
  "truthy (ident savedBefore)
   \<and> res_error (fst (saveResume (sampleEnv noFaults) savedBefore emptyWorld)) = None
   \<and> res_id (fst (saveResume (sampleEnv noFaults) savedBefore emptyWorld)) = the (ident savedBefore)
   \<and> resumes (db (snd (saveResume (sampleEnv noFaults) savedBefore emptyWorld)))
         (the (ident savedBefore)) \<noteq> None
   \<and> \<not> truthy (ident oneJob)
   \<and> res_error (fst (saveResume (sampleEnv noFaults) oneJob emptyWorld)) = None
   \<and> res_id (fst (saveResume (sampleEnv noFaults) oneJob emptyWorld))
       = uuid (sampleEnv noFaults) (uuidCount emptyWorld)"
proof -
  have t: "truthy (ident savedBefore)" by (simp add: savedBefore_def)
  have n: "res_error (fst (saveResume (sampleEnv noFaults) savedBefore emptyWorld)) = None"
    by (simp add: save_savedBefore)
  have p: "saveResume (sampleEnv noFaults) savedBefore emptyWorld =
      (fst (saveResume (sampleEnv noFaults) savedBefore emptyWorld),
       snd (saveResume (sampleEnv noFaults) savedBefore emptyWorld))" by simp
  have i: "the (ident savedBefore) = (if truthy (ident savedBefore) then the (ident savedBefore)
       else uuid (sampleEnv noFaults) (uuidCount emptyWorld))" using t by simp
  have u: "upsertResume (faultsOf (sampleEnv noFaults)) = None"
    by (simp add: sampleEnv_def noFaults_def)
  note k = saveResume_keeps_identifier [OF p i]
  from k [THEN conjunct1] n
  have a: "res_id (fst (saveResume (sampleEnv noFaults) savedBefore emptyWorld)) = the (ident savedBefore)"
    by simp
  from k [THEN conjunct2, THEN conjunct2, THEN conjunct1] u
  have b: "resumes (db (snd (saveResume (sampleEnv noFaults) savedBefore emptyWorld)))
         (the (ident savedBefore)) \<noteq> None"
    by simp
  have t': "\<not> truthy (ident oneJob)" by (simp add: oneJob_def bareResume_def)
  note n' = save_oneJob_error
  have p': "saveResume (sampleEnv noFaults) oneJob emptyWorld =
      (fst (saveResume (sampleEnv noFaults) oneJob emptyWorld),
       snd (saveResume (sampleEnv noFaults) oneJob emptyWorld))" by simp
  have i': "uuid (sampleEnv noFaults) (uuidCount emptyWorld) = (if truthy (ident oneJob) then the (ident oneJob)
       else uuid (sampleEnv noFaults) (uuidCount emptyWorld))" using t' by simp
  note k' = saveResume_keeps_identifier [OF p' i']
  from k' [THEN conjunct1] n'
  have c: "res_id (fst (saveResume (sampleEnv noFaults) oneJob emptyWorld))
       = uuid (sampleEnv noFaults) (uuidCount emptyWorld)"
    by simp
  show ?thesis
    apply (intro conjI)
    apply (rule t n a b t' n' c)+
    done
qed

lemma afterFailedInsert_eq:
  "afterFailedInsert =
      \<lparr>db = \<lparr>resumes = [''u'' \<mapsto> resumeData (sampleEnv insertFails) oneJob ''u''],
               resume_experiences = [], resume_education = [], resume_certifications = []\<rparr>,
       uuidCount = 2\<rparr>"
  by (simp add: afterFailedInsert_def save_insertFails)

lemma retry_after_failed_insert:
  "res_error (fst (saveResume (sampleEnv noFaults) oneJob afterFailedInsert)) = None"
  "res_id (fst (saveResume (sampleEnv noFaults) oneJob afterFailedInsert)) = ''uuu''"
  "resumes (db (snd (saveResume (sampleEnv noFaults) oneJob afterFailedInsert))) ''u'' \<noteq> None"
  "resumes (db (snd (saveResume (sampleEnv noFaults) oneJob afterFailedInsert))) ''uuu'' \<noteq> None"
  by (simp_all add: afterFailedInsert_eq saveResume_def chooseId_def uuidv4_def oneJob_def
      bareResume_def sampleEnv_def noFaults_def saveExperiences_def saveEducation_def
      saveCertifications_def Let_def numeral_2_eq_2)

text \<open>
  Claim C7 as stated fails: the identifier of a new record is drawn before the first call
  of the store.  A save that fails at the insert of the experience rows has already put
  the record into the table under the new identifier; the next save draws another one, and
  the record is in the table twice.
\<close>

theorem failed_save_then_retry_draws_new_identifier:
  "\<not> truthy (ident oneJob)
   \<and> res_error (fst (saveResume (sampleEnv insertFails) oneJob emptyWorld))
       = Some (StoreError ''insert failed'')
   \<and> resumes (db emptyWorld) ''u'' = None
   \<and> resumes (db afterFailedInsert) ''u'' \<noteq> None
   \<and> res_error (fst (saveResume (sampleEnv noFaults) oneJob afterFailedInsert)) = None
   \<and> res_id (fst (saveResume (sampleEnv noFaults) oneJob afterFailedInsert)) = ''uuu''
   \<and> resumes (db (snd (saveResume (sampleEnv noFaults) oneJob afterFailedInsert))) ''u'' \<noteq> None
   \<and> resumes (db (snd (saveResume (sampleEnv noFaults) oneJob afterFailedInsert))) ''uuu'' \<noteq> None"
proof -
  have a: "\<not> truthy (ident oneJob)" by (simp add: oneJob_def bareResume_def)
  have b: "res_error (fst (saveResume (sampleEnv insertFails) oneJob emptyWorld))
       = Some (StoreError ''insert failed'')" by (simp add: save_insertFails)
  have c: "resumes (db emptyWorld) ''u'' = None" by (simp add: emptyWorld_def)
  have d: "resumes (db afterFailedInsert) ''u'' \<noteq> None" by (simp add: afterFailedInsert_eq)
  show ?thesis
    apply (intro conjI)
    apply (rule a b c d retry_after_failed_insert)+
    done
qed

text \<open>
  Claim C8, as amended.  The error that \<open>saveResume\<close> returns is the error of the first
  failing call among the upsert and the inserts of the sequences that are not empty; a
  failing delete is not reported.  With an error the returned identifier is empty, the
  caller shows its message and keeps its record as it was.  The store is as it was when
  the upsert fails.  When the upsert succeeds the row of the record is in the table
  whatever fails later, every table whose turn came is left as its delete and its insert
  made it (after a failing insert: with the old rows of the record deleted and no new
  ones), and the tables whose turn did not come are as they were: nothing is rolled
  back.  Every key that was in the table of records is still there.
\<close>

theorem failed_save:
  assumes run: "saveResume en r w = (res, w')"
    and i: "i = (if truthy (ident r) then the (ident r) else uuid en (uuidCount w))"
  shows "res_error res = (case upsertResume (faultsOf en) of Some e \<Rightarrow> Some e
          | None \<Rightarrow> (case (if atLeast_len (experience r) 1 then insertExperiences (faultsOf en) else None) of Some e \<Rightarrow> Some e
          | None \<Rightarrow> (case (if atLeast_len (education r) 1 then insertEducation (faultsOf en) else None) of Some e \<Rightarrow> Some e
          | None \<Rightarrow> (if atLeast_len (certifications r) 1 then insertCertifications (faultsOf en) else None))))
       \<and> (res_error res \<noteq> None \<longrightarrow>
            res_id res = [] \<and>
            resume (fst (handleResumeBuilt en r (app, w))) = resume app \<and>
            saveError (fst (handleResumeBuilt en r (app, w)))
              = Some ''Failed to save resume. Please try again.'')
       \<and> (upsertResume (faultsOf en) \<noteq> None \<longrightarrow> db w' = db w)
       \<and> (upsertResume (faultsOf en) = None \<longrightarrow>
            resumes (db w') = (resumes (db w))(i \<mapsto> \<lparr>r_id = i, r_name = name r, r_email = email r, r_phone = phone r,
              r_location = location r, r_linkedin = linkedin r, r_website = website r,
              r_summary = summary r, r_skills = skills r, r_created_at = now en\<rparr>))
       \<and> (\<exists>c. resume_experiences (db w') =
         (if upsertResume (faultsOf en) = None \<and> atLeast_len (experience r) 1
          then (if deleteExperiences (faultsOf en) = None then filter (\<lambda>row. x_resume_id row \<noteq> i) (resume_experiences (db w)) else resume_experiences (db w))
               @ (if insertExperiences (faultsOf en) = None
                  then map (\<lambda>j. \<lparr>x_id = uuid en (c + j), x_resume_id = i,
              x_company = company (the (experience r) ! j),
              x_position = position (the (experience r) ! j),
              x_start_date = exp_startDate (the (experience r) ! j),
              x_end_date = exp_endDate (the (experience r) ! j),
              x_description = exp_description (the (experience r) ! j),
              x_order_index = j\<rparr>) [0 ..< length (the (experience r))]
                  else [])
          else resume_experiences (db w)))
       \<and> (\<exists>c. resume_education (db w') =
         (if upsertResume (faultsOf en) = None \<and> (if atLeast_len (experience r) 1 then insertExperiences (faultsOf en) else None) = None \<and> atLeast_len (education r) 1
          then (if deleteEducation (faultsOf en) = None then filter (\<lambda>row. e_resume_id row \<noteq> i) (resume_education (db w)) else resume_education (db w))
               @ (if insertEducation (faultsOf en) = None
                  then map (\<lambda>j. \<lparr>e_id = uuid en (c + j), e_resume_id = i,
              e_institution = institution (the (education r) ! j),
              e_degree = degree (the (education r) ! j),
              e_field_of_study = fieldOfStudy (the (education r) ! j),
              e_start_date = edu_startDate (the (education r) ! j),
              e_end_date = edu_endDate (the (education r) ! j),
              e_description = edu_description (the (education r) ! j),
              e_order_index = j\<rparr>) [0 ..< length (the (education r))]
                  else [])
          else resume_education (db w)))
       \<and> (\<exists>c. resume_certifications (db w') =
         (if upsertResume (faultsOf en) = None \<and> (if atLeast_len (experience r) 1 then insertExperiences (faultsOf en) else None) = None \<and> (if atLeast_len (education r) 1 then insertEducation (faultsOf en) else None) = None
              \<and> atLeast_len (certifications r) 1
          then (if deleteCertifications (faultsOf en) = None then filter (\<lambda>row. c_resume_id row \<noteq> i) (resume_certifications (db w)) else resume_certifications (db w))
               @ (if insertCertifications (faultsOf en) = None
                  then map (\<lambda>j. \<lparr>c_id = uuid en (c + j), c_resume_id = i,
              c_name = cert_name (the (certifications r) ! j),
              c_issuer = issuer (the (certifications r) ! j),
              c_date = date (the (certifications r) ! j),
              c_description = cert_description (the (certifications r) ! j),
              c_order_index = j\<rparr>) [0 ..< length (the (certifications r))]
                  else [])
          else resume_certifications (db w)))
       \<and> (\<forall>k. resumes (db w) k \<noteq> None \<longrightarrow> resumes (db w') k \<noteq> None)"
proof -
  note e = saveResume_effect [OF run i]
  have b: "res_error res \<noteq> None \<longrightarrow>
            res_id res = [] \<and>
            resume (fst (handleResumeBuilt en r (app, w))) = resume app \<and>
            saveError (fst (handleResumeBuilt en r (app, w)))
              = Some ''Failed to save resume. Please try again.''"
    using e(2) handleResumeBuilt_resume [OF run, of app] by simp
  have k: "\<forall>k. resumes (db w) k \<noteq> None \<longrightarrow> resumes (db w') k \<noteq> None"
  proof (cases "upsertResume (faultsOf en)")
    case None
    with e(4) show ?thesis by simp
  next
    case (Some err)
    with e(3) show ?thesis by simp
  qed
  show ?thesis
    apply (intro conjI)
    apply (rule e(1) b e(3) e(4) e(5) e(6) e(7) k)+
    done
qed

theorem failed_save_witness:
  "upsertResume upsertFails \<noteq> None
   \<and> res_error (fst (saveResume (sampleEnv upsertFails) savedBefore emptyWorld))
       = upsertResume upsertFails
   \<and> res_id (fst (saveResume (sampleEnv upsertFails) savedBefore emptyWorld)) = []
   \<and> db (snd (saveResume (sampleEnv upsertFails) savedBefore emptyWorld)) = db emptyWorld
   \<and> resume (fst (handleResumeBuilt (sampleEnv upsertFails) savedBefore (startApp, emptyWorld)))
       = resume startApp
   \<and> insertExperiences insertFails \<noteq> None
   \<and> res_error (fst (saveResume (sampleEnv insertFails) oneJob emptyWorld))
       = insertExperiences insertFails
   \<and> resumes (db (snd (saveResume (sampleEnv insertFails) oneJob emptyWorld)))
         (uuid (sampleEnv insertFails) (uuidCount emptyWorld)) \<noteq> None
   \<and> deleteExperiences deleteFails \<noteq> None
   \<and> res_error (fst (saveResume (sampleEnv deleteFails) oneJob emptyWorld)) = None"
proof -
  have f1: "upsertResume upsertFails \<noteq> None" by (simp add: upsertFails_def)
  have p1: "saveResume (sampleEnv upsertFails) savedBefore emptyWorld =
      (fst (saveResume (sampleEnv upsertFails) savedBefore emptyWorld),
       snd (saveResume (sampleEnv upsertFails) savedBefore emptyWorld))" by simp
  have i1: "the (ident savedBefore) = (if truthy (ident savedBefore) then the (ident savedBefore)
       else uuid (sampleEnv upsertFails) (uuidCount emptyWorld))"
    by (simp add: savedBefore_def)
  have u1: "upsertResume (faultsOf (sampleEnv upsertFails)) = upsertResume upsertFails"
    by (simp add: sampleEnv_def)
  note t1 = failed_save [OF p1 i1, of startApp]
  from t1 [THEN conjunct1] u1 f1
  have a: "res_error (fst (saveResume (sampleEnv upsertFails) savedBefore emptyWorld))
       = upsertResume upsertFails" by (auto split: option.splits)
  from t1 [THEN conjunct2, THEN conjunct1] a f1
  have b: "res_id (fst (saveResume (sampleEnv upsertFails) savedBefore emptyWorld)) = []"
    and d: "resume (fst (handleResumeBuilt (sampleEnv upsertFails) savedBefore (startApp, emptyWorld)))
       = resume startApp" by simp_all
  from t1 [THEN conjunct2, THEN conjunct2, THEN conjunct1] u1 f1
  have c: "db (snd (saveResume (sampleEnv upsertFails) savedBefore emptyWorld)) = db emptyWorld"
    by simp
  have f2: "insertExperiences insertFails \<noteq> None" by (simp add: insertFails_def)
  have p2: "saveResume (sampleEnv insertFails) oneJob emptyWorld =
      (fst (saveResume (sampleEnv insertFails) oneJob emptyWorld),
       snd (saveResume (sampleEnv insertFails) oneJob emptyWorld))" by simp
  have i2: "uuid (sampleEnv insertFails) (uuidCount emptyWorld) =
      (if truthy (ident oneJob) then the (ident oneJob)
       else uuid (sampleEnv insertFails) (uuidCount emptyWorld))"
    by (simp add: oneJob_def bareResume_def)
  have u2: "upsertResume (faultsOf (sampleEnv insertFails)) = None"
    "insertExperiences (faultsOf (sampleEnv insertFails)) = insertExperiences insertFails"
    "atLeast_len (experience oneJob) 1"
    by (simp_all add: sampleEnv_def insertFails_def noFaults_def oneJob_def bareResume_def)
  note t2 = failed_save [OF p2 i2, of startApp]
  from t2 [THEN conjunct1] u2 f2
  have e: "res_error (fst (saveResume (sampleEnv insertFails) oneJob emptyWorld))
       = insertExperiences insertFails" by (auto split: option.splits)
  from t2 [THEN conjunct2, THEN conjunct2, THEN conjunct2, THEN conjunct1] u2
  have g: "resumes (db (snd (saveResume (sampleEnv insertFails) oneJob emptyWorld)))
         (uuid (sampleEnv insertFails) (uuidCount emptyWorld)) \<noteq> None" by simp
  have f3: "deleteExperiences deleteFails \<noteq> None" by (simp add: deleteFails_def)
  have p3: "saveResume (sampleEnv deleteFails) oneJob emptyWorld =
      (fst (saveResume (sampleEnv deleteFails) oneJob emptyWorld),
       snd (saveResume (sampleEnv deleteFails) oneJob emptyWorld))" by simp
  have i3: "uuid (sampleEnv deleteFails) (uuidCount emptyWorld) =
      (if truthy (ident oneJob) then the (ident oneJob)
       else uuid (sampleEnv deleteFails) (uuidCount emptyWorld))"
    by (simp add: oneJob_def bareResume_def)
  have u3: "upsertResume (faultsOf (sampleEnv deleteFails)) = None"
    "insertExperiences (faultsOf (sampleEnv deleteFails)) = None"
    "insertEducation (faultsOf (sampleEnv deleteFails)) = None"
    "insertCertifications (faultsOf (sampleEnv deleteFails)) = None"
    by (simp_all add: sampleEnv_def deleteFails_def noFaults_def)
  note t3 = failed_save [OF p3 i3, of startApp]
  from t3 [THEN conjunct1] u3
  have h: "res_error (fst (saveResume (sampleEnv deleteFails) oneJob emptyWorld)) = None"
    by simp
  show ?thesis
    apply (intro conjI)
    apply (rule f1 a b c d f2 e g f3 h)+
    done
qed

text \<open>
  Claim C8 as stated fails: there is no rollback.  When the insert of the experience rows
  fails, the record that the same save has upserted before stays in the store.
\<close>

theorem failed_insert_leaves_record:
  "res_error (fst (saveResume (sampleEnv insertFails) oneJob emptyWorld))
     = Some (StoreError ''insert failed'')
   \<and> resumes (db emptyWorld) ''u'' = None
   \<and> resumes (db (snd (saveResume (sampleEnv insertFails) oneJob emptyWorld))) ''u''
       = Some (resumeData (sampleEnv insertFails) oneJob ''u'')
   \<and> db (snd (saveResume (sampleEnv insertFails) oneJob emptyWorld)) \<noteq> db emptyWorld"
proof -
  have a: "resumes (db emptyWorld) ''u'' = None" by (simp add: emptyWorld_def)
  have b: "resumes (db (snd (saveResume (sampleEnv insertFails) oneJob emptyWorld))) ''u''
       = Some (resumeData (sampleEnv insertFails) oneJob ''u'')"
    by (simp add: save_insertFails)
  from a b have "db (snd (saveResume (sampleEnv insertFails) oneJob emptyWorld)) \<noteq> db emptyWorld"
    by auto
  with a b show ?thesis by (simp add: save_insertFails)
qed

end
